theory Spec2Isabelle
  imports Main "HOL-Library.Sublist"
begin

section \<open>Data model of \<^verbatim>\<open>pkg/health/health.go\<close>\<close>

text \<open>
  Go strings are byte sequences; \<open>string\<close> (a \<open>char list\<close>, one \<open>char\<close> per byte) is the
  same thing, and \<^verbatim>\<open>[]byte(s)\<close> is the identity on it.
\<close>

text \<open>\<^verbatim>\<open>type PgStateEntry struct { StateName string; Count int }\<close>. No arithmetic is done on
  \<open>Count\<close>, it is only printed, so it is an \<open>int\<close>.\<close>

record PgStateEntry =
  StateName :: string
  Count :: int

record healthStatus =
  Status :: string

record pgMap =
  PgsByState :: "PgStateEntry list"

record cephStatus =
  PgMap :: pgMap
  Health :: healthStatus

text \<open>The fields of \<^verbatim>\<open>v1.Pod\<close> that the package reads: \<^verbatim>\<open>Name\<close>, \<^verbatim>\<open>Status.Phase\<close>,
  \<^verbatim>\<open>Namespace\<close> and \<^verbatim>\<open>Spec.NodeName\<close>. \<^verbatim>\<open>v1.PodPhase\<close> is a string type.\<close>

record Pod =
  Name :: string
  Phase :: string
  Namespace :: string
  NodeName :: string

definition PodRunning :: string where
  "PodRunning = ''Running''"

subsection \<open>Output and requests as a trace of events\<close>

text \<open>Arguments of a format string: \<^verbatim>\<open>%s\<close> of a string, \<^verbatim>\<open>%d\<close> of an int and \<^verbatim>\<open>%v\<close> of the
  error of the orchestrator client (its text).\<close>

datatype arg = AStr string | AInt int | AErr string

text \<open>Go error values that the package creates or receives: \<^verbatim>\<open>fmt.Errorf(format, args...)\<close>,
  the \<^verbatim>\<open>base64.CorruptInputError\<close> of \<^verbatim>\<open>DecodeString\<close> (its offset is left out) and the
  error of \<^verbatim>\<open>json.Unmarshal\<close> (its text).\<close>

datatype error = Errorf string "arg list" | CorruptInputError | UnmarshalError string

text \<open>Everything the package does to the outside, in the order it does it: the four
  logging calls, \<^verbatim>\<open>fmt.Printf\<close> and \<^verbatim>\<open>fmt.Println()\<close> on standard output, the pod listing
  \<^verbatim>\<open>Pods(namespace).List(ctx, ListOptions{LabelSelector: label})\<close> and the remote command
  \<^verbatim>\<open>exec.RunCommandInOperatorPod(ctx, cmd, args, operatorNamespace, clusterNamespace, false)\<close>.\<close>

datatype event =
    LogInfo string "arg list"
  | LogWarning string "arg list"
  | LogError error
  | LogFatal error
  | Printf string "arg list"
  | Println
  | PodsList string string
  | RunCommand string "string list" string string

datatype severity = Info | Warning | Error | Fatal

fun severity_of :: "event \<Rightarrow> severity option" where
  "severity_of (LogInfo f as) = Some Info"
| "severity_of (LogWarning f as) = Some Warning"
| "severity_of (LogError e) = Some Error"
| "severity_of (LogFatal e) = Some Fatal"
| "severity_of ev = None"

text \<open>How a call ends: it returns a value, the process exits inside it, or it panics.\<close>

datatype 'a outcome = Return 'a | Exit | Panic

text \<open>What \<^verbatim>\<open>json.Unmarshal(data, &cephStatus)\<close> can do to the nil \<^verbatim>\<open>*cephStatus\<close>: fail, leave
  it nil (the JSON value \<^verbatim>\<open>null\<close>), or point it to a decoded struct.\<close>

datatype unmarshalled = JsonError string | JsonNil | JsonValue cephStatus

text \<open>The external collaborators. Each answer may depend on everything that happened before
  (the trace so far), so two calls with the same arguments may see different cluster states.
  \<^item> \<open>listPods tr namespace label\<close>: the two results of the orchestrator's pod listing,
    \<^verbatim>\<open>podList, err := ...List(ctx, opts)\<close>: the items of the list handed back and the error,
    \<open>None\<close> for \<^verbatim>\<open>nil\<close>. The client hands back a list also when it hands back an error, and
    that list may hold items; the package reads \<^verbatim>\<open>podList.Items\<close> whatever \<^verbatim>\<open>err\<close> is.
  \<^item> \<open>runCommandInOperatorPod tr cmd args operatorNamespace clusterNamespace\<close>: the standard
    output of the remote command.
  \<^item> \<open>unmarshal data\<close>: \<^verbatim>\<open>json.Unmarshal\<close> into a \<^verbatim>\<open>*cephStatus\<close>.\<close>

record world =
  listPods :: "event list \<Rightarrow> string \<Rightarrow> string \<Rightarrow> Pod list \<times> string option"
  runCommandInOperatorPod :: "event list \<Rightarrow> string \<Rightarrow> string list \<Rightarrow> string \<Rightarrow> string \<Rightarrow> string"
  unmarshal :: "string \<Rightarrow> unmarshalled"

subsection \<open>\<^verbatim>\<open>strings.Contains\<close>\<close>

text \<open>\<^verbatim>\<open>strings.Contains(s, substr)\<close>: \<open>substr\<close> occurs in \<open>s\<close> at some byte offset.\<close>

primrec Contains :: "string \<Rightarrow> string \<Rightarrow> bool" where
  "Contains [] substr = (substr = [])"
| "Contains (c # s) substr = (prefix substr (c # s) \<or> Contains s substr)"

subsection \<open>\<^verbatim>\<open>encoding/base64\<close>: \<^verbatim>\<open>StdEncoding\<close>\<close>

text \<open>The standard alphabet of RFC 4648, \<^verbatim>\<open>const encodeStd\<close> of the Go library, and the
  padding character \<^verbatim>\<open>StdPadding = '='\<close>.\<close>

definition encodeStd :: string where
  "encodeStd = ''ABCDEFGHIJKLMNOPQRSTUVWXYZabcdefghijklmnopqrstuvwxyz0123456789+/''"

definition padChar :: char where
  "padChar = CHR ''=''"

text \<open>\<^verbatim>\<open>EncodeToString\<close>: three bytes become the 24-bit value
  \<^verbatim>\<open>b0<<16 | b1<<8 | b2\<close> and four alphabet characters, one per 6 bits
  (\<^verbatim>\<open>val>>18&0x3F\<close>, \<^verbatim>\<open>val>>12&0x3F\<close>, \<^verbatim>\<open>val>>6&0x3F\<close>, \<^verbatim>\<open>val&0x3F\<close>); a remainder of one
  or two bytes is padded with \<^verbatim>\<open>=\<close>.\<close>

definition enc6 :: "nat \<Rightarrow> char" where
  "enc6 v = encodeStd ! (v mod 64)"

fun EncodeToString :: "string \<Rightarrow> string" where
  "EncodeToString [] = []"
| "EncodeToString [b0] =
     (let val = of_char b0 * 65536
      in [enc6 (val div 262144), enc6 (val div 4096), padChar, padChar])"
| "EncodeToString [b0, b1] =
     (let val = of_char b0 * 65536 + of_char b1 * 256
      in [enc6 (val div 262144), enc6 (val div 4096), enc6 (val div 64), padChar])"
| "EncodeToString (b0 # b1 # b2 # src) =
     (let val = of_char b0 * 65536 + of_char b1 * 256 + of_char b2
      in enc6 (val div 262144) # enc6 (val div 4096) # enc6 (val div 64) # enc6 val #
         EncodeToString src)"

text \<open>\<^verbatim>\<open>decodeMap\<close>: the position of a character in the alphabet, none (\<^verbatim>\<open>0xFF\<close> in Go) for
  a character outside it.\<close>

definition decodeMap :: "char \<Rightarrow> nat option" where
  "decodeMap c = map_of (zip encodeStd [0..<64]) c"

text \<open>\<^verbatim>\<open>DecodeString\<close>: carriage returns and line feeds are skipped; every four characters
  give the 24-bit value \<^verbatim>\<open>d0<<18 | d1<<12 | d2<<6 | d3\<close> and its three bytes
  (\<^verbatim>\<open>val>>16\<close>, \<^verbatim>\<open>val>>8\<close>, \<^verbatim>\<open>val\<close>, each truncated to a byte); padding is accepted only in the last quantum, as \<^verbatim>\<open>xx==\<close> (one byte) or
  \<^verbatim>\<open>xxx=\<close> (two bytes); anything else is a \<^verbatim>\<open>CorruptInputError\<close>. As in the non-strict
  \<^verbatim>\<open>StdEncoding\<close>, the unused low bits of a padded quantum are not checked.\<close>

fun decodeQuanta :: "string \<Rightarrow> error + string" where
  "decodeQuanta [] = Inr []"
| "decodeQuanta (a # b # c # d # rest) =
     (case (decodeMap a, decodeMap b) of
        (Some x, Some y) \<Rightarrow>
          if c = padChar then
            (if d = padChar \<and> rest = [] then Inr [char_of ((x * 262144 + y * 4096) div 65536)]
             else Inl CorruptInputError)
          else
            (case decodeMap c of
               None \<Rightarrow> Inl CorruptInputError
             | Some z \<Rightarrow>
                 if d = padChar then
                   (if rest = [] then
                      (let val = x * 262144 + y * 4096 + z * 64
                       in Inr [char_of (val div 65536), char_of (val div 256)])
                    else Inl CorruptInputError)
                 else
                   (case decodeMap d of
                      None \<Rightarrow> Inl CorruptInputError
                    | Some w \<Rightarrow>
                        (case decodeQuanta rest of
                           Inl e \<Rightarrow> Inl e
                         | Inr dst \<Rightarrow>
                             (let val = x * 262144 + y * 4096 + z * 64 + w
                              in Inr (char_of (val div 65536) # char_of (val div 256) #
                                      char_of val # dst)))))
      | _ \<Rightarrow> Inl CorruptInputError)"
| "decodeQuanta src = Inl CorruptInputError"

definition DecodeString :: "string \<Rightarrow> error + string" where
  "DecodeString s = decodeQuanta (filter (\<lambda>c. c \<noteq> CHR 0x0D \<and> c \<noteq> CHR 0x0A) s)"

subsection \<open>\<^verbatim>\<open>pkg/logging\<close>\<close>

text \<open>Modelled from the spec: the package \<^verbatim>\<open>pkg/logging\<close> is not among the sources. The
  spec gives it four severity levels, Info, Warning, Error and Fatal, each a line on the
  logging channel; a decode error is "logged via a terminating failure path" and "decode
  errors currently terminate the process": \<^verbatim>\<open>logging.Fatal\<close> logs and exits, the other
  three log and return.\<close>

definition loggingInfo :: "string \<Rightarrow> arg list \<Rightarrow> event list \<Rightarrow> event list" where
  "loggingInfo format args tr = tr @ [LogInfo format args]"

definition loggingWarning :: "string \<Rightarrow> arg list \<Rightarrow> event list \<Rightarrow> event list" where
  "loggingWarning format args tr = tr @ [LogWarning format args]"

definition loggingError :: "error \<Rightarrow> event list \<Rightarrow> event list" where
  "loggingError err tr = tr @ [LogError err]"

definition loggingFatal :: "error \<Rightarrow> event list \<Rightarrow> 'a outcome \<times> event list" where
  "loggingFatal err tr = (Exit, tr @ [LogFatal err])"

subsection \<open>\<^verbatim>\<open>checkPodsOnNodes\<close>\<close>

text \<open>The format of a listing line, \<^verbatim>\<open>"%s\t%s\t%s\t%s\n"\<close>, and the call
  \<^verbatim>\<open>fmt.Printf\<close> of it on a pod's name, phase, namespace and node name.\<close>

definition podFormat :: string where
  "podFormat = ''%s'' @ [CHR 0x09] @ ''%s'' @ [CHR 0x09] @ ''%s'' @ [CHR 0x09] @ ''%s'' @ [CHR 0x0A]"

definition podLine :: "Pod \<Rightarrow> event" where
  "podLine p = Printf podFormat [AStr (Name p), AStr (Phase p), AStr (Namespace p), AStr (NodeName p)]"

text \<open>\<^verbatim>\<open>podList.Items\<close> of what \<^verbatim>\<open>List\<close> returned, with or without an error.\<close>

definition Items :: "Pod list \<times> string option \<Rightarrow> Pod list" where
  "Items r = fst r"

text \<open>The \<^verbatim>\<open>daemonType\<close> that \<^verbatim>\<open>checkPodsOnNodes\<close> reads off its label: \<^verbatim>\<open>osd\<close> is tried
  first, then \<^verbatim>\<open>mon\<close>; otherwise it stays the empty string.\<close>

definition daemonTypeOf :: "string \<Rightarrow> string" where
  "daemonTypeOf label =
     (if Contains label ''osd'' then ''osd''
      else if Contains label ''mon'' then ''mon''
      else [])"

text \<open>The loop that fills \<^verbatim>\<open>nodeList\<close>, a \<^verbatim>\<open>map[string]string\<close> from node name to the name of
  the first pod seen on it. The map is an association list with one pair per key, in
  order of insertion; \<^verbatim>\<open>len(nodeList)\<close> is its length.\<close>

fun nodeListLoop :: "Pod list \<Rightarrow> (string \<times> string) list \<Rightarrow> (string \<times> string) list" where
  "nodeListLoop [] nodeList = nodeList"
| "nodeListLoop (p # ps) nodeList =
     nodeListLoop ps
       (case map_of nodeList (NodeName p) of
          None \<Rightarrow> nodeList @ [(NodeName p, Name p)]
        | Some okay \<Rightarrow> nodeList)"

definition checkPodsOnNodes :: "world \<Rightarrow> string \<Rightarrow> string \<Rightarrow> event list \<Rightarrow> event list" where
  "checkPodsOnNodes w clusterNamespace label tr =
     (let daemonType = daemonTypeOf label;
          r = listPods w tr clusterNamespace label;
          tr1 = tr @ [PodsList clusterNamespace label];
          tr2 = (case snd r of
                   Some err \<Rightarrow>
                     loggingError (Errorf ''failed to list %s pods with label %s: %v''
                                     [AStr daemonType, AStr label, AErr err]) tr1
                 | None \<Rightarrow> tr1);
          nodeList = nodeListLoop (Items r) [];
          tr3 = (if length nodeList < 3 then
                   loggingWarning
                     (''At least three %s pods should running on different nodes'' @ [CHR 0x0A])
                     [AStr daemonType] tr2
                 else tr2)
      in tr3 @ map podLine (Items r))"

subsection \<open>\<^verbatim>\<open>getPodRunningStatus\<close> and \<^verbatim>\<open>CheckAllPodsStatus\<close>\<close>

text \<open>The loop of \<^verbatim>\<open>getPodRunningStatus\<close> that appends each pod to \<^verbatim>\<open>podNotRunning\<close> or to
  \<^verbatim>\<open>podRunning\<close>.\<close>

fun runningLoop :: "Pod list \<Rightarrow> Pod list \<times> Pod list \<Rightarrow> Pod list \<times> Pod list" where
  "runningLoop [] (podRunning, podNotRunning) = (podRunning, podNotRunning)"
| "runningLoop (p # ps) (podRunning, podNotRunning) =
     (if Phase p \<noteq> PodRunning then runningLoop ps (podRunning, podNotRunning @ [p])
      else runningLoop ps (podRunning @ [p], podNotRunning))"

definition getPodRunningStatus ::
  "world \<Rightarrow> string \<Rightarrow> event list \<Rightarrow> (Pod list \<times> Pod list) \<times> event list" where
  "getPodRunningStatus w namespace tr =
     (let r = listPods w tr namespace [];
          tr1 = tr @ [PodsList namespace []];
          tr2 = (case snd r of
                   Some err \<Rightarrow>
                     loggingError (Errorf ([CHR 0x0A] @ ''failed to list pods in namespace %s: %v''
                                           @ [CHR 0x0A])
                                     [AStr namespace, AErr err]) tr1
                 | None \<Rightarrow> tr1)
      in (runningLoop (Items r) ([], []), tr2))"

definition CheckAllPodsStatus :: "world \<Rightarrow> string \<Rightarrow> string \<Rightarrow> event list \<Rightarrow> event list" where
  "CheckAllPodsStatus w operatorNamespace clusterNamespace tr =
     (case getPodRunningStatus w operatorNamespace tr of
        ((podRunning0, podNotRunning0), tr1) \<Rightarrow>
          (case (if operatorNamespace \<noteq> clusterNamespace then
                   (case getPodRunningStatus w clusterNamespace tr1 of
                      ((clusterRunningPod, clusterNotRunningPod), tr2) \<Rightarrow>
                        ((podRunning0 @ clusterRunningPod, podNotRunning0 @ clusterNotRunningPod),
                         tr2))
                 else ((podRunning0, podNotRunning0), tr1)) of
             ((podRunning, podNotRunning), tr2) \<Rightarrow>
               (let tr3 = loggingInfo (''Pods that are in '' @ [CHR 0x27] @ ''Running''
                                       @ [CHR 0x27] @ '' status'') [] tr2;
                    tr4 = tr3 @ map podLine podRunning;
                    tr5 = loggingWarning (''Pods that are '' @ [CHR 0x27] @ ''Not'' @ [CHR 0x27]
                                          @ '' in '' @ [CHR 0x27] @ ''Running'' @ [CHR 0x27]
                                          @ '' status'') [] (tr4 @ [Println])
                in tr5 @ map podLine podNotRunning)))"

subsection \<open>\<^verbatim>\<open>unMarshalCephStatus\<close>\<close>

abbreviation cephStatusArgs :: "string list" where
  "cephStatusArgs \<equiv> [''-s'', ''--format'', ''json'']"

definition unMarshalCephStatus ::
  "world \<Rightarrow> string \<Rightarrow> string \<Rightarrow> event list \<Rightarrow> (string \<times> PgStateEntry list) outcome \<times> event list"
  where
  "unMarshalCephStatus w operatorNamespace clusterNamespace tr =
     (let cephStatusOut = runCommandInOperatorPod w tr ''ceph'' cephStatusArgs
                            operatorNamespace clusterNamespace;
          tr1 = tr @ [RunCommand ''ceph'' cephStatusArgs operatorNamespace clusterNamespace];
          ecodedText = EncodeToString cephStatusOut
      in case DecodeString ecodedText of
           Inl err \<Rightarrow> loggingFatal err tr1
         | Inr decodeCephStatus \<Rightarrow>
             (case unmarshal w decodeCephStatus of
                JsonError msg \<Rightarrow> loggingFatal (UnmarshalError msg) tr1
              | JsonNil \<Rightarrow> (Panic, tr1)
              | JsonValue cephStatus \<Rightarrow>
                  (Return (Status (Health cephStatus), PgsByState (PgMap cephStatus)), tr1)))"

subsection \<open>\<^verbatim>\<open>checkMonQuorum\<close>\<close>

definition checkMonQuorum :: "world \<Rightarrow> string \<Rightarrow> string \<Rightarrow> event list \<Rightarrow> unit outcome \<times> event list"
  where
  "checkMonQuorum w operatorNamespace clusterNamespace tr =
     (case unMarshalCephStatus w operatorNamespace clusterNamespace tr of
        (Return (cephHealthDetails, pgs), tr1) \<Rightarrow>
          (Return (),
           if cephHealthDetails = ''HEALTH_OK'' then loggingInfo cephHealthDetails [] tr1
           else if cephHealthDetails = ''HEALTH_WARN'' then loggingWarning cephHealthDetails [] tr1
           else if cephHealthDetails = ''HEALTH_ERR'' then
             loggingError (Errorf cephHealthDetails []) tr1
           else tr1)
      | (Exit, tr1) \<Rightarrow> (Exit, tr1)
      | (Panic, tr1) \<Rightarrow> (Panic, tr1))"

subsection \<open>\<^verbatim>\<open>checkPgStatus\<close>\<close>

definition pgFormat :: string where
  "pgFormat = [CHR 0x09] @ ''PgState: %s, PgCount: %d''"

text \<open>The body of the loop over \<^verbatim>\<open>pgStateEntryList\<close>.\<close>

definition checkPgEntry :: "PgStateEntry \<Rightarrow> event list \<Rightarrow> event list" where
  "checkPgEntry pgStatus tr =
     (if StateName pgStatus = ''active+clean'' then
        loggingInfo pgFormat [AStr (StateName pgStatus), AInt (Count pgStatus)] tr
      else if Contains (StateName pgStatus) ''down''
              \<or> Contains (StateName pgStatus) ''incomplete''
              \<or> Contains (StateName pgStatus) ''snaptrim_error'' then
        loggingError (Errorf pgFormat [AStr (StateName pgStatus), AInt (Count pgStatus)]) tr
      else
        loggingWarning pgFormat [AStr (StateName pgStatus), AInt (Count pgStatus)] tr)"

fun pgLoop :: "PgStateEntry list \<Rightarrow> event list \<Rightarrow> event list" where
  "pgLoop [] tr = tr"
| "pgLoop (pgStatus # rest) tr = pgLoop rest (checkPgEntry pgStatus tr)"

definition checkPgStatus :: "world \<Rightarrow> string \<Rightarrow> string \<Rightarrow> event list \<Rightarrow> unit outcome \<times> event list"
  where
  "checkPgStatus w operatorNamespace clusterNamespace tr =
     (case unMarshalCephStatus w operatorNamespace clusterNamespace tr of
        (Return (health, pgStateEntryList), tr1) \<Rightarrow> (Return (), pgLoop pgStateEntryList tr1)
      | (Exit, tr1) \<Rightarrow> (Exit, tr1)
      | (Panic, tr1) \<Rightarrow> (Panic, tr1))"

subsection \<open>\<^verbatim>\<open>checkMgrPodsStatusAndCounts\<close>\<close>

definition checkMgrPodsStatusAndCounts :: "world \<Rightarrow> string \<Rightarrow> event list \<Rightarrow> event list" where
  "checkMgrPodsStatusAndCounts w clusterNamespace tr =
     (let label = ''app=rook-ceph-mgr'';
          r = listPods w tr clusterNamespace label;
          tr1 = tr @ [PodsList clusterNamespace label]
      in case snd r of
           Some err \<Rightarrow>
             loggingError (Errorf ([CHR 0x0A] @ ''failed to list mgr pods with label %s: %v''
                                   @ [CHR 0x0A])
                             [AStr label, AErr err]) tr1
         | None \<Rightarrow>
             (let tr2 = (if length (Items r) < 1 then
                           loggingWarning ''At least one mgr pod should be running'' [] tr1
                         else tr1)
              in tr2 @ map podLine (Items r)))"

subsection \<open>\<^verbatim>\<open>Health\<close>\<close>

definition Health :: "world \<Rightarrow> string \<Rightarrow> string \<Rightarrow> event list \<Rightarrow> unit outcome \<times> event list" where
  "Health w operatorNamespace clusterNamespace tr =
     (let tr1 = loggingInfo ''Checking if at least three mon pods are running on different nodes''
                  [] tr;
          tr2 = checkPodsOnNodes w clusterNamespace ''app=rook-ceph-mon'' tr1;
          tr3 = loggingInfo ''Checking mon quorum and ceph health details'' [] (tr2 @ [Println])
      in case checkMonQuorum w operatorNamespace clusterNamespace tr3 of
           (Return u, tr4) \<Rightarrow>
             (let tr5 = loggingInfo
                          ''Checking if at least three osd pods are running on different nodes''
                          [] (tr4 @ [Println]);
                  tr6 = checkPodsOnNodes w clusterNamespace ''app=rook-ceph-osd'' tr5;
                  tr7 = CheckAllPodsStatus w operatorNamespace clusterNamespace (tr6 @ [Println]);
                  tr8 = loggingInfo ''Checking placement group status'' [] (tr7 @ [Println])
              in case checkPgStatus w operatorNamespace clusterNamespace tr8 of
                   (Return u', tr9) \<Rightarrow>
                     (Return (),
                      checkMgrPodsStatusAndCounts w clusterNamespace
                        (loggingInfo ''Checking if at least one mgr pod is running'' []
                           (tr9 @ [Println])))
                 | (Exit, tr9) \<Rightarrow> (Exit, tr9)
                 | (Panic, tr9) \<Rightarrow> (Panic, tr9))
         | (Exit, tr4) \<Rightarrow> (Exit, tr4)
         | (Panic, tr4) \<Rightarrow> (Panic, tr4))"

text \<open>The requests in a trace: the pod listings and remote commands, in order.\<close>

fun is_request :: "event \<Rightarrow> bool" where
  "is_request (PodsList namespace label) = True"
| "is_request (RunCommand cmd args operatorNamespace clusterNamespace) = True"
| "is_request ev = False"

definition requests :: "event list \<Rightarrow> event list" where
  "requests tr = filter is_request tr"

text \<open>The listing lines in a trace: every \<^verbatim>\<open>fmt.Printf\<close> of the package prints one pod.\<close>

fun is_listing :: "event \<Rightarrow> bool" where
  "is_listing (Printf format args) = True"
| "is_listing ev = False"

text \<open>The number of remote commands in a trace.\<close>

definition runCommandCount :: "event list \<Rightarrow> nat" where
  "runCommandCount tr =
     length (filter (\<lambda>ev. case ev of RunCommand cmd args on cn \<Rightarrow> True | _ \<Rightarrow> False) tr)"

text \<open>The requests of a complete run of \<^verbatim>\<open>Health\<close>, in the order of its body.\<close>

definition Health_requests :: "string \<Rightarrow> string \<Rightarrow> event list" where
  "Health_requests operatorNamespace clusterNamespace =
     [PodsList clusterNamespace ''app=rook-ceph-mon'',
      RunCommand ''ceph'' cephStatusArgs operatorNamespace clusterNamespace,
      PodsList clusterNamespace ''app=rook-ceph-osd'',
      PodsList operatorNamespace []]
     @ (if operatorNamespace \<noteq> clusterNamespace then [PodsList clusterNamespace []] else [])
     @ [RunCommand ''ceph'' cephStatusArgs operatorNamespace clusterNamespace,
        PodsList clusterNamespace ''app=rook-ceph-mgr'']"

section \<open>The classification rule in the words of the specification\<close>

text \<open>A state name exactly equal to \<^verbatim>\<open>active+clean\<close> is Info; otherwise a name that has
  \<^verbatim>\<open>down\<close>, \<^verbatim>\<open>incomplete\<close> or \<^verbatim>\<open>snaptrim_error\<close> as a substring is Error; every other name
  is Warning. "Substring" is \<open>sublist\<close>: \<open>sublist xs ys\<close> holds when \<open>ys = ps @ xs @ ss\<close> for
  some \<open>ps\<close> and \<open>ss\<close>.\<close>

definition spec_pg_severity :: "string \<Rightarrow> severity" where
  "spec_pg_severity stateName =
     (if stateName = ''active+clean'' then Info
      else if sublist ''down'' stateName \<or> sublist ''incomplete'' stateName
              \<or> sublist ''snaptrim_error'' stateName then Error
      else Warning)"

section \<open>Example clusters\<close>

definition examplePod :: "string \<Rightarrow> string \<Rightarrow> string \<Rightarrow> string \<Rightarrow> Pod" where
  "examplePod name phase namespace nodeName =
     \<lparr>Name = name, Phase = phase, Namespace = namespace, NodeName = nodeName\<rparr>"

text \<open>Three monitors, one of them not yet scheduled; two storage daemons on one node; one
  manager; without a label, the operator and the three monitors.\<close>

definition examplePods :: "string \<Rightarrow> string \<Rightarrow> Pod list" where
  "examplePods namespace label =
     (if label = ''app=rook-ceph-mon'' then
        [examplePod ''mon-a'' ''Running'' namespace ''node1'',
         examplePod ''mon-b'' ''Running'' namespace ''node2'',
         examplePod ''mon-c'' ''Pending'' namespace []]
      else if label = ''app=rook-ceph-osd'' then
        [examplePod ''osd-0'' ''Running'' namespace ''node1'',
         examplePod ''osd-1'' ''Running'' namespace ''node1'']
      else if label = ''app=rook-ceph-mgr'' then
        [examplePod ''mgr-a'' ''Running'' namespace ''node2'']
      else
        [examplePod ''operator'' ''Running'' namespace ''node1'',
         examplePod ''mon-a'' ''Running'' namespace ''node1'',
         examplePod ''mon-b'' ''Running'' namespace ''node2'',
         examplePod ''mon-c'' ''Pending'' namespace []])"

definition exampleStatus :: cephStatus where
  "exampleStatus =
     \<lparr>PgMap = \<lparr>PgsByState =
        [\<lparr>StateName = ''active+clean'', Count = 10\<rparr>,
         \<lparr>StateName = ''active+undersized+degraded+down'', Count = 2\<rparr>,
         \<lparr>StateName = ''remapped'', Count = 2\<rparr>]\<rparr>,
      Health = \<lparr>Status = ''HEALTH_WARN''\<rparr>\<rparr>"

text \<open>A decoder that accepts one payload, reads \<^verbatim>\<open>null\<close> as the nil pointer and rejects
  everything else.\<close>

definition exampleUnmarshal :: "string \<Rightarrow> unmarshalled" where
  "exampleUnmarshal data =
     (if data = ''{status}'' then JsonValue exampleStatus
      else if data = ''null'' then JsonNil
      else JsonError ''invalid character'')"

text \<open>A healthy orchestrator and a well-formed status.\<close>

definition exampleWorld :: world where
  "exampleWorld =
     \<lparr>listPods = (\<lambda>tr namespace label. (examplePods namespace label, None)),
      runCommandInOperatorPod = (\<lambda>tr cmd args on cn. ''{status}''),
      unmarshal = exampleUnmarshal\<rparr>"

text \<open>Every pod listing fails and hands back no item.\<close>

definition failingWorld :: world where
  "failingWorld =
     \<lparr>listPods = (\<lambda>tr namespace label. ([], Some ''connection refused'')),
      runCommandInOperatorPod = (\<lambda>tr cmd args on cn. ''{status}''),
      unmarshal = exampleUnmarshal\<rparr>"

text \<open>Every pod listing fails and hands back its items with the error.\<close>

definition partialWorld :: world where
  "partialWorld =
     \<lparr>listPods = (\<lambda>tr namespace label.
                   (examplePods namespace label, Some ''context deadline exceeded'')),
      runCommandInOperatorPod = (\<lambda>tr cmd args on cn. ''{status}''),
      unmarshal = exampleUnmarshal\<rparr>"


text \<open>The first status fetch returns a truncated payload; every later fetch would return a
  well-formed one.\<close>

definition garbledWorld :: world where
  "garbledWorld =
     \<lparr>listPods = (\<lambda>tr namespace label. (examplePods namespace label, None)),
      runCommandInOperatorPod =
        (\<lambda>tr cmd args on cn. if runCommandCount tr = 0 then ''{stat'' else ''{status}''),
      unmarshal = exampleUnmarshal\<rparr>"

text \<open>The first status fetch returns a well-formed payload, the second a truncated one.\<close>

definition lateGarbledWorld :: world where
  "lateGarbledWorld =
     \<lparr>listPods = (\<lambda>tr namespace label. (examplePods namespace label, None)),
      runCommandInOperatorPod =
        (\<lambda>tr cmd args on cn. if runCommandCount tr = 0 then ''{status}'' else ''{stat''),
      unmarshal = exampleUnmarshal\<rparr>"

text \<open>Every status fetch returns the payload \<^verbatim>\<open>null\<close>.\<close>

definition nullWorld :: world where
  "nullWorld =
     \<lparr>listPods = (\<lambda>tr namespace label. (examplePods namespace label, None)),
      runCommandInOperatorPod = (\<lambda>tr cmd args on cn. ''null''),
      unmarshal = exampleUnmarshal\<rparr>"

text \<open>The first status fetch returns a well-formed payload, the second \<^verbatim>\<open>null\<close>.\<close>

definition lateNullWorld :: world where
  "lateNullWorld =
     \<lparr>listPods = (\<lambda>tr namespace label. (examplePods namespace label, None)),
      runCommandInOperatorPod =
        (\<lambda>tr cmd args on cn. if runCommandCount tr = 0 then ''{status}'' else ''null''),
      unmarshal = exampleUnmarshal\<rparr>"

section \<open>The base64 round trip\<close>

lemma length_encodeStd: "length encodeStd = 64"
  by (simp add: encodeStd_def)
lemma distinct_encodeStd: "distinct encodeStd"
  by (simp add: encodeStd_def)
lemma enc6_in: "enc6 v \<in> set encodeStd"
  by (simp add: enc6_def length_encodeStd)
lemma enc6_dec: "decodeMap (enc6 v) = Some (v mod 64)"
proof -
  have "map_of (zip encodeStd [0..<64]) (encodeStd ! (v mod 64)) = Some ([0..<64] ! (v mod 64))"
    by (rule map_of_zip_nth) (simp_all add: length_encodeStd distinct_encodeStd)
  thus ?thesis by (simp add: enc6_def decodeMap_def)
qed
lemma enc6_not_special: "enc6 v \<noteq> padChar" "enc6 v \<noteq> CHR 0x0D" "enc6 v \<noteq> CHR 0x0A"
proof -
  have "padChar \<notin> set encodeStd" "CHR 0x0D \<notin> set encodeStd" "CHR 0x0A \<notin> set encodeStd"
    by (simp_all add: encodeStd_def padChar_def)
  thus "enc6 v \<noteq> padChar" "enc6 v \<noteq> CHR 0x0D" "enc6 v \<noteq> CHR 0x0A"
    using enc6_in[of v] by auto
qed
lemma padChar_not_newline: "padChar \<noteq> CHR 0x0D" "padChar \<noteq> CHR 0x0A"
  by (simp_all add: padChar_def)

lemma split24:
  fixes n :: nat
  assumes "n < 16777216"
  shows "(n div 262144) mod 64 * 262144 + (n div 4096) mod 64 * 4096 + (n div 64) mod 64 * 64 + n mod 64 = n"
proof -
  define q1 where "q1 = n div 64"
  define q2 where "q2 = q1 div 64"
  define q3 where "q3 = q2 div 64"
  have e2: "n div 4096 = q2"
    unfolding q1_def q2_def by (simp add: div_mult2_eq[symmetric])
  have e3: "n div 262144 = q3"
    unfolding q1_def q2_def q3_def by (simp add: div_mult2_eq[symmetric])
  have "q3 < 64" using assms unfolding e3[symmetric] by simp
  then have m3: "q3 mod 64 = q3" by simp
  have d1: "n = q1 * 64 + n mod 64" unfolding q1_def by simp
  have d2: "q1 = q2 * 64 + q1 mod 64" unfolding q2_def by simp
  have d3: "q2 = q3 * 64 + q2 mod 64" unfolding q3_def by simp
  have "q3 * 262144 + q2 mod 64 * 4096 + q1 mod 64 * 64 + n mod 64 = n"
    using d1 d2 d3 by linarith
  then show ?thesis unfolding e2 e3 m3 q1_def[symmetric] by simp
qed

lemma bytes24:
  fixes a b c :: nat
  assumes "b < 256" "c < 256"
  shows "(a * 65536 + b * 256 + c) div 65536 = a"
    and "(a * 65536 + b * 256 + c) div 256 = a * 256 + b"
    and "(a * 65536 + b * 256 + c) mod 256 = c"
proof -
  have "b * 256 + c < 65536" using assms by linarith
  then show "(a * 65536 + b * 256 + c) div 65536 = a"
    by (simp add: add.assoc)
  have eq: "a * 65536 + b * 256 + c = c + (a * 256 + b) * 256" by simp
  have "(c + (a * 256 + b) * 256) div 256 = (a * 256 + b) + c div 256"
    by (rule div_mult_self1) simp
  then show "(a * 65536 + b * 256 + c) div 256 = a * 256 + b"
    using assms(2) by (simp only: eq div_less add_0_right)
  have "(c + (a * 256 + b) * 256) mod 256 = c mod 256"
    by (rule mod_mult_self1)
  then show "(a * 65536 + b * 256 + c) mod 256 = c"
    using assms(2) by (simp only: eq mod_less)
qed


lemma split24_pad1:
  fixes a b :: nat
  assumes "a < 256" "b < 256"
  defines "val \<equiv> a * 65536 + b * 256"
  shows "val div 262144 mod 64 * 262144 + val div 4096 mod 64 * 4096 + val div 64 mod 64 * 64
         = a * 65536 + b * 256 + 0"
proof -
  have "val < 16777216" unfolding val_def using assms(1,2) by linarith
  then have s: "val div 262144 mod 64 * 262144 + val div 4096 mod 64 * 4096 +
      val div 64 mod 64 * 64 + val mod 64 = val"
    by (rule split24)
  have "val = (a * 1024 + b * 4) * 64" unfolding val_def by simp
  then have "val mod 64 = 0" by (simp only: mod_mult_self2_is_0)
  with s show ?thesis unfolding val_def by (simp only: add_0_right)
qed

lemma split24_pad2:
  fixes a :: nat
  assumes "a < 256"
  defines "val \<equiv> a * 65536"
  shows "val div 262144 mod 64 * 262144 + val div 4096 mod 64 * 4096
         = a * 65536 + 0 * 256 + 0"
proof -
  have "val < 16777216" unfolding val_def using assms(1) by linarith
  then have s: "val div 262144 mod 64 * 262144 + val div 4096 mod 64 * 4096 +
      val div 64 mod 64 * 64 + val mod 64 = val"
    by (rule split24)
  have "val = (a * 1024) * 64" unfolding val_def by simp
  then have m: "val mod 64 = 0" and d: "val div 64 = a * 1024"
    by simp_all
  have "a * 1024 = (a * 16) * 64" by simp
  then have "a * 1024 mod 64 = 0" by (simp only: mod_mult_self2_is_0)
  with s m d show ?thesis unfolding val_def by (simp only: add_0_right mult_zero_left)
qed

lemma char_of_low_byte: "char_of (a * 256 + of_char c :: nat) = c"
  by (simp add: char_of_eq_iff take_bit_eq_mod)

lemma quantum3:
  fixes b0 b1 b2 :: char
  defines "val \<equiv> (of_char b0 * 65536 + of_char b1 * 256 + of_char b2 :: nat)"
  defines "val' \<equiv> val div 262144 mod 64 * 262144 + val div 4096 mod 64 * 4096 + val div 64 mod 64 * 64 + val mod 64"
  shows "char_of (val' div 65536) = b0" "char_of (val' div 256) = b1" "char_of val' = b2"
proof -
  have lt: "(of_char b0 :: nat) < 256" "(of_char b1 :: nat) < 256" "(of_char b2 :: nat) < 256"
    by simp_all
  then have "val < 16777216" unfolding val_def by linarith
  then have eq: "val' = val" unfolding val'_def by (rule split24)
  show "char_of (val' div 65536) = b0"
    unfolding eq val_def by (simp only: bytes24(1)[OF lt(2) lt(3)] char_of_char)
  show "char_of (val' div 256) = b1"
    unfolding eq val_def by (simp only: bytes24(2)[OF lt(2) lt(3)] char_of_low_byte)
  have "val = (of_char b0 * 256 + of_char b1) * 256 + of_char b2" unfolding val_def by simp
  then show "char_of val' = b2"
    unfolding eq by (simp only: char_of_low_byte)
qed

lemma quantum2:
  fixes b0 b1 :: char
  defines "val \<equiv> (of_char b0 * 65536 + of_char b1 * 256 :: nat)"
  defines "val' \<equiv> val div 262144 mod 64 * 262144 + val div 4096 mod 64 * 4096 + val div 64 mod 64 * 64"
  shows "char_of (val' div 65536) = b0" "char_of (val' div 256) = b1"
proof -
  have lt: "(of_char b0 :: nat) < 256" "(of_char b1 :: nat) < 256" "(0 :: nat) < 256"
    by simp_all
  have eq: "val' = of_char b0 * 65536 + of_char b1 * 256 + 0"
    unfolding val'_def val_def by (rule split24_pad1[OF lt(1) lt(2)])
  show "char_of (val' div 65536) = b0"
    unfolding eq by (simp only: bytes24(1)[OF lt(2) lt(3)] char_of_char)
  show "char_of (val' div 256) = b1"
    unfolding eq by (simp only: bytes24(2)[OF lt(2) lt(3)] char_of_low_byte)
qed

lemma quantum1:
  fixes b0 :: char
  defines "val \<equiv> (of_char b0 * 65536 :: nat)"
  defines "val' \<equiv> val div 262144 mod 64 * 262144 + val div 4096 mod 64 * 4096"
  shows "char_of (val' div 65536) = b0"
proof -
  have lt: "(of_char b0 :: nat) < 256" "(0 :: nat) < 256"
    by simp_all
  have eq: "val' = of_char b0 * 65536 + 0 * 256 + 0"
    unfolding val'_def val_def by (rule split24_pad2[OF lt(1)])
  show "char_of (val' div 65536) = b0"
    unfolding eq by (simp only: bytes24(1)[OF lt(2) lt(2)] char_of_char)
qed

lemmas decode_steps = EncodeToString.simps decodeQuanta.simps Let_def enc6_dec enc6_not_special
  option.case prod.case sum.case if_True if_False simp_thms

lemma decodeQuanta_EncodeToString: "decodeQuanta (EncodeToString src) = Inr src"
proof (induction src rule: EncodeToString.induct)
  case 1
  show ?case by simp
next
  case (2 b0)
  show ?case
    by (simp only: decode_steps quantum1)
next
  case (3 b0 b1)
  show ?case
    by (simp only: decode_steps quantum2)
next
  case (4 b0 b1 b2 src)
  then show ?case
    by (simp only: decode_steps quantum3)
qed

lemma EncodeToString_no_newline:
  "filter (\<lambda>c. c \<noteq> CHR 0x0D \<and> c \<noteq> CHR 0x0A) (EncodeToString src) = EncodeToString src"
  by (induction src rule: EncodeToString.induct)
     (simp_all only: EncodeToString.simps Let_def filter.simps enc6_not_special padChar_not_newline simp_thms if_True)

lemma DecodeString_EncodeToString: "DecodeString (EncodeToString src) = Inr src"
  by (simp only: DecodeString_def EncodeToString_no_newline decodeQuanta_EncodeToString)

text \<open>Known encodings, and inputs that \<^verbatim>\<open>DecodeString\<close> rejects (missing padding, a
  character outside the alphabet): the decoder can fail, only not on what the encoder
  produced.\<close>

lemma EncodeToString_example:
  "EncodeToString ''ceph'' = ''Y2VwaA==''"
  "EncodeToString ''{status}'' = ''e3N0YXR1c30=''"
  by (simp_all add: enc6_def encodeStd_def padChar_def)

lemma decodeMap_example:
  "decodeMap CHR ''Y'' = Some 24" "decodeMap CHR ''2'' = Some 54" "decodeMap CHR ''V'' = Some 21"
  "decodeMap CHR ''w'' = Some 48" "decodeMap CHR ''a'' = Some 26" "decodeMap CHR ''A'' = Some 0"
  "decodeMap CHR ''*'' = None"
  by (simp_all add: decodeMap_def encodeStd_def upt_rec numeral_eq_Suc)

lemma DecodeString_example:
  "DecodeString ''Y2VwaA=='' = Inr ''ceph''"
  "DecodeString ''Y2VwaA'' = Inl CorruptInputError"
  "DecodeString ''Y2V*'' = Inl CorruptInputError"
proof -
  show "DecodeString ''Y2VwaA=='' = Inr ''ceph''"
    using DecodeString_EncodeToString[of "''ceph''"] by (simp only: EncodeToString_example)
  show "DecodeString ''Y2VwaA'' = Inl CorruptInputError"
    by (simp add: DecodeString_def decodeMap_example padChar_def)
  show "DecodeString ''Y2V*'' = Inl CorruptInputError"
    by (simp add: DecodeString_def decodeMap_example padChar_def)
qed

text \<open>With the round trip gone, \<^verbatim>\<open>unMarshalCephStatus\<close> is the fetch followed by
  \<^verbatim>\<open>json.Unmarshal\<close> of the fetched text.\<close>

lemma unMarshalCephStatus_unfold:
  "unMarshalCephStatus w op cl tr =
     (case unmarshal w (runCommandInOperatorPod w tr ''ceph'' cephStatusArgs op cl) of
        JsonError msg \<Rightarrow>
          (Exit, tr @ [RunCommand ''ceph'' cephStatusArgs op cl, LogFatal (UnmarshalError msg)])
      | JsonNil \<Rightarrow> (Panic, tr @ [RunCommand ''ceph'' cephStatusArgs op cl])
      | JsonValue cs \<Rightarrow>
          (Return (Status (cephStatus.Health cs), PgsByState (PgMap cs)),
           tr @ [RunCommand ''ceph'' cephStatusArgs op cl]))"
  by (simp add: unMarshalCephStatus_def Let_def DecodeString_EncodeToString loggingFatal_def
           split: unmarshalled.split)

text \<open>Claim C9. In \<^verbatim>\<open>unMarshalCephStatus\<close> the fetched text is base64-encoded and decoded
  again before \<^verbatim>\<open>json.Unmarshal\<close>. Decoding an encoding gives back the bytes, whatever the
  fetcher returned; so the call is the fetch followed by \<^verbatim>\<open>json.Unmarshal\<close> of exactly the
  fetched text, and the events it adds never contain the fatal log of a
  \<^verbatim>\<open>CorruptInputError\<close>.\<close>

theorem unMarshalCephStatus_base64_identity:
  "DecodeString (EncodeToString src) = Inr src
   \<and> unMarshalCephStatus w op cl tr =
       (case unmarshal w (runCommandInOperatorPod w tr ''ceph'' cephStatusArgs op cl) of
          JsonError msg \<Rightarrow>
            loggingFatal (UnmarshalError msg) (tr @ [RunCommand ''ceph'' cephStatusArgs op cl])
        | JsonNil \<Rightarrow> (Panic, tr @ [RunCommand ''ceph'' cephStatusArgs op cl])
        | JsonValue cs \<Rightarrow>
            (Return (Status (cephStatus.Health cs), PgsByState (PgMap cs)),
             tr @ [RunCommand ''ceph'' cephStatusArgs op cl]))
   \<and> LogFatal CorruptInputError
         \<notin> set (drop (length tr) (snd (unMarshalCephStatus w op cl tr)))"
  by (simp add: unMarshalCephStatus_unfold DecodeString_EncodeToString loggingFatal_def
           split: unmarshalled.split)


section \<open>Properties of the parts\<close>

subsection \<open>\<^verbatim>\<open>strings.Contains\<close> is the substring relation\<close>

lemma Contains_iff_sublist: "Contains s substr \<longleftrightarrow> sublist substr s"
  by (induction s) (auto simp: sublist_Cons_right)

subsection \<open>The loops\<close>

lemma checkPgEntry_severity:
  "\<exists>ev. checkPgEntry e tr = tr @ [ev] \<and> severity_of ev = Some (spec_pg_severity (StateName e))"
  by (simp add: checkPgEntry_def spec_pg_severity_def Contains_iff_sublist loggingInfo_def
        loggingWarning_def loggingError_def)

lemma pgLoop_severity:
  "\<exists>evs. pgLoop pgs tr = tr @ evs
     \<and> map severity_of evs = map (\<lambda>e. Some (spec_pg_severity (StateName e))) pgs"
proof (induction pgs arbitrary: tr)
  case Nil
  show ?case by simp
next
  case (Cons e pgs)
  obtain ev where ev: "checkPgEntry e tr = tr @ [ev]"
      "severity_of ev = Some (spec_pg_severity (StateName e))"
    using checkPgEntry_severity by blast
  obtain evs where evs: "pgLoop pgs (tr @ [ev]) = (tr @ [ev]) @ evs"
      "map severity_of evs = map (\<lambda>e. Some (spec_pg_severity (StateName e))) pgs"
    using Cons.IH by blast
  have "pgLoop (e # pgs) tr = tr @ (ev # evs)"
    using ev(1) evs(1) by simp
  moreover have "map severity_of (ev # evs)
      = map (\<lambda>e. Some (spec_pg_severity (StateName e))) (e # pgs)"
    using ev(2) evs(2) by simp
  ultimately show ?case by blast
qed

lemma nodeListLoop_keys:
  "distinct (map fst nodeList) \<Longrightarrow>
   distinct (map fst (nodeListLoop ps nodeList))
   \<and> set (map fst (nodeListLoop ps nodeList)) = set (map fst nodeList) \<union> NodeName ` set ps"
proof (induction ps arbitrary: nodeList)
  case Nil
  then show ?case by simp
next
  case (Cons p ps)
  show ?case
  proof (cases "map_of nodeList (NodeName p)")
    case None
    then have "NodeName p \<notin> fst ` set nodeList" by (simp add: map_of_eq_None_iff)
    then have "distinct (map fst (nodeList @ [(NodeName p, Name p)]))"
      using Cons.prems by simp
    from Cons.IH[OF this] None show ?thesis by auto
  next
    case (Some okay)
    then have "NodeName p \<in> fst ` set nodeList"
      by (metis map_of_eq_None_iff option.distinct(1))
    with Cons.IH[OF Cons.prems] Some show ?thesis by auto
  qed
qed

lemma length_nodeListLoop: "length (nodeListLoop ps []) = card (NodeName ` set ps)"
proof -
  have d: "distinct (map fst (nodeListLoop ps []))"
    and s: "set (map fst (nodeListLoop ps [])) = NodeName ` set ps"
    using nodeListLoop_keys[of "[]" ps] by simp_all
  have "length (nodeListLoop ps []) = length (map fst (nodeListLoop ps []))" by simp
  also have "\<dots> = card (set (map fst (nodeListLoop ps [])))"
    using d by (rule distinct_card[symmetric])
  finally show ?thesis using s by simp
qed

lemma runningLoop_filter:
  "runningLoop ps (podRunning, podNotRunning) =
     (podRunning @ filter (\<lambda>p. Phase p = PodRunning) ps,
      podNotRunning @ filter (\<lambda>p. Phase p \<noteq> PodRunning) ps)"
  by (induction ps arbitrary: podRunning podNotRunning) simp_all

subsection \<open>The requests each check makes\<close>

lemma requests_append [simp]: "requests (xs @ ys) = requests xs @ requests ys"
  by (simp add: requests_def)

lemma requests_simps [simp]:
  "requests [] = []"
  "requests (PodsList ns label # tr) = PodsList ns label # requests tr"
  "requests (RunCommand cmd args on cn # tr) = RunCommand cmd args on cn # requests tr"
  "requests (LogInfo f as # tr) = requests tr"
  "requests (LogWarning f as # tr) = requests tr"
  "requests (LogError e # tr) = requests tr"
  "requests (LogFatal e # tr) = requests tr"
  "requests (Printf f as # tr) = requests tr"
  "requests (Println # tr) = requests tr"
  by (simp_all add: requests_def)

lemma requests_podLines [simp]: "requests (map podLine ps) = []"
  by (induction ps) (simp_all add: podLine_def)

lemma listing_podLines [simp]: "filter is_listing (map podLine ps) = map podLine ps"
  by (induction ps) (simp_all add: podLine_def)

lemma requests_pgLoop [simp]: "requests (pgLoop pgs tr) = requests tr"
proof (induction pgs arbitrary: tr)
  case Nil
  show ?case by simp
next
  case (Cons e pgs)
  have "requests (checkPgEntry e tr) = requests tr"
    by (simp add: checkPgEntry_def loggingInfo_def loggingWarning_def loggingError_def)
  with Cons.IH show ?case by simp
qed

lemma getPodRunningStatus_unfold:
  "getPodRunningStatus w ns tr =
     ((filter (\<lambda>p. Phase p = PodRunning) (Items (listPods w tr ns [])),
       filter (\<lambda>p. Phase p \<noteq> PodRunning) (Items (listPods w tr ns []))),
      tr @ [PodsList ns []]
      @ (case snd (listPods w tr ns []) of
           Some err \<Rightarrow>
             [LogError (Errorf ([CHR 0x0A] @ ''failed to list pods in namespace %s: %v''
                                @ [CHR 0x0A]) [AStr ns, AErr err])]
         | None \<Rightarrow> []))"
  by (simp add: getPodRunningStatus_def Let_def runningLoop_filter loggingError_def
           split: option.split)

lemma requests_getPodRunningStatus [simp]:
  "requests (snd (getPodRunningStatus w ns tr)) = requests tr @ [PodsList ns []]"
  by (simp add: getPodRunningStatus_unfold split: option.split)

lemma requests_checkPodsOnNodes [simp]:
  "requests (checkPodsOnNodes w ns label tr) = requests tr @ [PodsList ns label]"
  by (simp add: checkPodsOnNodes_def Let_def loggingError_def loggingWarning_def
           split: option.split)

lemma requests_checkMgr [simp]:
  "requests (checkMgrPodsStatusAndCounts w cl tr)
     = requests tr @ [PodsList cl ''app=rook-ceph-mgr'']"
  by (simp add: checkMgrPodsStatusAndCounts_def Let_def loggingError_def loggingWarning_def
           split: option.split)

lemma requests_CheckAllPodsStatus [simp]:
  "requests (CheckAllPodsStatus w op cl tr)
     = requests tr @ [PodsList op []] @ (if op \<noteq> cl then [PodsList cl []] else [])"
  by (simp add: CheckAllPodsStatus_def Let_def getPodRunningStatus_unfold loggingInfo_def
        loggingWarning_def split: option.split)

subsection \<open>The status checks and \<^verbatim>\<open>Health\<close>\<close>

lemma checkMonQuorum_unfold:
  "checkMonQuorum w op cl tr =
     (case unmarshal w (runCommandInOperatorPod w tr ''ceph'' cephStatusArgs op cl) of
        JsonError msg \<Rightarrow>
          (Exit, tr @ [RunCommand ''ceph'' cephStatusArgs op cl, LogFatal (UnmarshalError msg)])
      | JsonNil \<Rightarrow> (Panic, tr @ [RunCommand ''ceph'' cephStatusArgs op cl])
      | JsonValue cs \<Rightarrow>
          (Return (),
           tr @ [RunCommand ''ceph'' cephStatusArgs op cl]
           @ (if Status (cephStatus.Health cs) = ''HEALTH_OK'' then
                [LogInfo (Status (cephStatus.Health cs)) []]
              else if Status (cephStatus.Health cs) = ''HEALTH_WARN'' then
                [LogWarning (Status (cephStatus.Health cs)) []]
              else if Status (cephStatus.Health cs) = ''HEALTH_ERR'' then
                [LogError (Errorf (Status (cephStatus.Health cs)) [])]
              else [])))"
  by (simp add: checkMonQuorum_def unMarshalCephStatus_unfold loggingInfo_def loggingWarning_def
        loggingError_def split: unmarshalled.split)

lemma checkPgStatus_unfold:
  "checkPgStatus w op cl tr =
     (case unmarshal w (runCommandInOperatorPod w tr ''ceph'' cephStatusArgs op cl) of
        JsonError msg \<Rightarrow>
          (Exit, tr @ [RunCommand ''ceph'' cephStatusArgs op cl, LogFatal (UnmarshalError msg)])
      | JsonNil \<Rightarrow> (Panic, tr @ [RunCommand ''ceph'' cephStatusArgs op cl])
      | JsonValue cs \<Rightarrow>
          (Return (),
           pgLoop (PgsByState (PgMap cs)) (tr @ [RunCommand ''ceph'' cephStatusArgs op cl])))"
  by (simp add: checkPgStatus_def unMarshalCephStatus_unfold split: unmarshalled.split)

lemma requests_checkMonQuorum [simp]:
  "requests (snd (checkMonQuorum w op cl tr))
     = requests tr @ [RunCommand ''ceph'' cephStatusArgs op cl]"
  by (simp add: checkMonQuorum_unfold split: unmarshalled.split)

lemma requests_checkPgStatus [simp]:
  "requests (snd (checkPgStatus w op cl tr))
     = requests tr @ [RunCommand ''ceph'' cephStatusArgs op cl]"
  by (simp add: checkPgStatus_unfold split: unmarshalled.split)

text \<open>\<^verbatim>\<open>Health\<close> in two stages: it goes on past a status check only when that check returned.\<close>

lemma Health_unfold:
  "Health w op cl tr =
     (let tr3 = loggingInfo ''Checking mon quorum and ceph health details'' []
                  (checkPodsOnNodes w cl ''app=rook-ceph-mon''
                     (loggingInfo
                        ''Checking if at least three mon pods are running on different nodes''
                        [] tr) @ [Println]);
          q = checkMonQuorum w op cl tr3
      in if fst q \<noteq> Return () then q
         else
           (let tr8 = loggingInfo ''Checking placement group status'' []
                        (CheckAllPodsStatus w op cl
                           (checkPodsOnNodes w cl ''app=rook-ceph-osd''
                              (loggingInfo
                                 ''Checking if at least three osd pods are running on different nodes''
                                 [] (snd q @ [Println])) @ [Println]) @ [Println]);
                g = checkPgStatus w op cl tr8
            in if fst g \<noteq> Return () then g
               else (Return (),
                     checkMgrPodsStatusAndCounts w cl
                       (loggingInfo ''Checking if at least one mgr pod is running'' []
                          (snd g @ [Println])))))"
  by (simp add: Health_def Let_def split: prod.split outcome.split)

lemma requests_loggingInfo [simp]: "requests (loggingInfo f as tr) = requests tr"
  by (simp add: loggingInfo_def)

lemma Health_requests_prefix:
  "prefix (requests (snd (Health w op cl tr))) (requests tr @ Health_requests op cl)"
  by (simp add: Health_unfold Let_def Health_requests_def)

lemma Health_requests_complete:
  "fst (Health w op cl tr) = Return () \<Longrightarrow>
   requests (snd (Health w op cl tr)) = requests tr @ Health_requests op cl"
  by (simp add: Health_unfold Let_def Health_requests_def split: if_splits)

subsection \<open>The example clusters\<close>

lemma daemonTypeOf_labels:
  "daemonTypeOf ''app=rook-ceph-mon'' = ''mon''"
  "daemonTypeOf ''app=rook-ceph-osd'' = ''osd''"
  "daemonTypeOf ''app=rook-ceph-mgr'' = []"
  by (simp_all add: daemonTypeOf_def)

lemma exampleWorld_status:
  "unMarshalCephStatus exampleWorld op cl tr =
     (Return (''HEALTH_WARN'', PgsByState (PgMap exampleStatus)),
      tr @ [RunCommand ''ceph'' cephStatusArgs op cl])"
  by (simp add: unMarshalCephStatus_unfold exampleWorld_def exampleUnmarshal_def exampleStatus_def)

lemma exampleWorld_returns: "fst (Health exampleWorld op cl tr) = Return ()"
  by (simp add: Health_unfold Let_def checkMonQuorum_unfold checkPgStatus_unfold
        exampleWorld_def exampleUnmarshal_def)

lemmas run_defs = Health_unfold Let_def checkMonQuorum_unfold checkPgStatus_unfold
  checkPodsOnNodes_def checkMgrPodsStatusAndCounts_def CheckAllPodsStatus_def
  getPodRunningStatus_unfold Items_def loggingInfo_def loggingWarning_def loggingError_def
  examplePods_def examplePod_def exampleUnmarshal_def exampleStatus_def podLine_def
  runCommandCount_def daemonTypeOf_labels

text \<open>\<^verbatim>\<open>Health\<close> with its two status checks resolved: what each fetched payload decodes to
  decides how the run goes on.\<close>

lemma Health_run:
  fixes w :: world and op cl :: string and tr :: "event list"
  defines "fetch \<equiv> RunCommand ''ceph'' cephStatusArgs op cl"
  defines "tr3 \<equiv> checkPodsOnNodes w cl ''app=rook-ceph-mon''
                   (tr @ [LogInfo ''Checking if at least three mon pods are running on different nodes'' []])
                 @ [Println, LogInfo ''Checking mon quorum and ceph health details'' []]"
  defines "verdict \<equiv> (\<lambda>h. if h = ''HEALTH_OK'' then [LogInfo h []]
                           else if h = ''HEALTH_WARN'' then [LogWarning h []]
                           else if h = ''HEALTH_ERR'' then [LogError (Errorf h [])]
                           else [])"
  defines "tr8 \<equiv> (\<lambda>cs1.
                   CheckAllPodsStatus w op cl
                     (checkPodsOnNodes w cl ''app=rook-ceph-osd''
                        (tr3 @ [fetch] @ verdict (Status (cephStatus.Health cs1))
                         @ [Println,
                            LogInfo ''Checking if at least three osd pods are running on different nodes'' []])
                      @ [Println])
                   @ [Println, LogInfo ''Checking placement group status'' []])"
  shows "Health w op cl tr =
           (case unmarshal w (runCommandInOperatorPod w tr3 ''ceph'' cephStatusArgs op cl) of
              JsonError msg \<Rightarrow> (Exit, tr3 @ [fetch, LogFatal (UnmarshalError msg)])
            | JsonNil \<Rightarrow> (Panic, tr3 @ [fetch])
            | JsonValue cs1 \<Rightarrow>
                (case unmarshal w
                        (runCommandInOperatorPod w (tr8 cs1) ''ceph'' cephStatusArgs op cl) of
                   JsonError msg \<Rightarrow> (Exit, tr8 cs1 @ [fetch, LogFatal (UnmarshalError msg)])
                 | JsonNil \<Rightarrow> (Panic, tr8 cs1 @ [fetch])
                 | JsonValue cs2 \<Rightarrow>
                     (Return (),
                      checkMgrPodsStatusAndCounts w cl
                        (pgLoop (PgsByState (PgMap cs2)) (tr8 cs1 @ [fetch])
                         @ [Println, LogInfo ''Checking if at least one mgr pod is running'' []]))))"
proof -
  let ?d1 = "unmarshal w (runCommandInOperatorPod w tr3 ''ceph'' cephStatusArgs op cl)"
  have t3: "loggingInfo ''Checking mon quorum and ceph health details'' []
              (checkPodsOnNodes w cl ''app=rook-ceph-mon''
                 (loggingInfo
                    ''Checking if at least three mon pods are running on different nodes''
                    [] tr) @ [Println]) = tr3"
    unfolding tr3_def by (simp add: loggingInfo_def)
  have q: "checkMonQuorum w op cl tr3 =
             (case ?d1 of
                JsonError msg \<Rightarrow> (Exit, tr3 @ [fetch, LogFatal (UnmarshalError msg)])
              | JsonNil \<Rightarrow> (Panic, tr3 @ [fetch])
              | JsonValue cs \<Rightarrow>
                  (Return (), tr3 @ [fetch] @ verdict (Status (cephStatus.Health cs))))"
    unfolding verdict_def fetch_def
    by (simp add: checkMonQuorum_unfold split: unmarshalled.split)
  have t8: "loggingInfo ''Checking placement group status'' []
              (CheckAllPodsStatus w op cl
                 (checkPodsOnNodes w cl ''app=rook-ceph-osd''
                    (loggingInfo
                       ''Checking if at least three osd pods are running on different nodes''
                       [] ((tr3 @ [fetch] @ verdict (Status (cephStatus.Health cs1))) @ [Println]))
                  @ [Println]) @ [Println]) = tr8 cs1" for cs1
    unfolding tr8_def by (simp add: loggingInfo_def)
  have g: "checkPgStatus w op cl t =
             (case unmarshal w (runCommandInOperatorPod w t ''ceph'' cephStatusArgs op cl) of
                JsonError msg \<Rightarrow> (Exit, t @ [fetch, LogFatal (UnmarshalError msg)])
              | JsonNil \<Rightarrow> (Panic, t @ [fetch])
              | JsonValue cs \<Rightarrow> (Return (), pgLoop (PgsByState (PgMap cs)) (t @ [fetch])))" for t
    unfolding fetch_def by (simp add: checkPgStatus_unfold split: unmarshalled.split)
  have m: "loggingInfo ''Checking if at least one mgr pod is running'' [] (t @ [Println])
             = t @ [Println, LogInfo ''Checking if at least one mgr pod is running'' []]" for t
    by (simp add: loggingInfo_def)
  show ?thesis
  proof (cases ?d1)
    case (JsonError msg)
    then show ?thesis
      by (simp only: Health_def Let_def t3 q unmarshalled.case prod.case outcome.case)
  next
    case JsonNil
    then show ?thesis
      by (simp only: Health_def Let_def t3 q unmarshalled.case prod.case outcome.case)
  next
    case d1: (JsonValue cs1)
    show ?thesis
    proof (cases "unmarshal w (runCommandInOperatorPod w (tr8 cs1) ''ceph'' cephStatusArgs op cl)")
      case (JsonError msg)
      with d1 show ?thesis
        by (simp only: Health_def Let_def t3 q t8 g unmarshalled.case prod.case outcome.case)
    next
      case JsonNil
      with d1 show ?thesis
        by (simp only: Health_def Let_def t3 q t8 g unmarshalled.case prod.case outcome.case)
    next
      case (JsonValue cs2)
      with d1 show ?thesis
        by (simp only: Health_def Let_def t3 q t8 g m unmarshalled.case prod.case outcome.case)
    qed
  qed
qed

subsection \<open>Remote commands in a trace\<close>

lemma runCommandCount_append [simp]:
  "runCommandCount (xs @ ys) = runCommandCount xs + runCommandCount ys"
  by (simp add: runCommandCount_def)

lemma runCommandCount_simps [simp]:
  "runCommandCount [] = 0"
  "runCommandCount (RunCommand cmd args on cn # tr) = Suc (runCommandCount tr)"
  "runCommandCount (PodsList ns label # tr) = runCommandCount tr"
  "runCommandCount (LogInfo f as # tr) = runCommandCount tr"
  "runCommandCount (LogWarning f as # tr) = runCommandCount tr"
  "runCommandCount (LogError e # tr) = runCommandCount tr"
  "runCommandCount (LogFatal e # tr) = runCommandCount tr"
  "runCommandCount (Printf f as # tr) = runCommandCount tr"
  "runCommandCount (Println # tr) = runCommandCount tr"
  by (simp_all add: runCommandCount_def)

lemma runCommandCount_requests: "runCommandCount tr = runCommandCount (requests tr)"
proof (induction tr)
  case Nil
  show ?case by simp
next
  case (Cons ev tr)
  then show ?case by (cases ev) simp_all
qed

lemma runCommandCount_checkPodsOnNodes [simp]:
  "runCommandCount (checkPodsOnNodes w ns label tr) = runCommandCount tr"
proof -
  have "runCommandCount (checkPodsOnNodes w ns label tr)
      = runCommandCount (requests tr @ [PodsList ns label])"
    by (simp add: runCommandCount_requests[of "checkPodsOnNodes w ns label tr"])
  also have "\<dots> = runCommandCount (requests tr)" by simp
  finally show ?thesis by (simp add: runCommandCount_requests[of tr])
qed

lemma runCommandCount_CheckAllPodsStatus [simp]:
  "runCommandCount (CheckAllPodsStatus w op cl tr) = runCommandCount tr"
proof -
  have "runCommandCount (CheckAllPodsStatus w op cl tr)
      = runCommandCount (requests tr @ [PodsList op []]
                         @ (if op \<noteq> cl then [PodsList cl []] else []))"
    by (simp add: runCommandCount_requests[of "CheckAllPodsStatus w op cl tr"])
  also have "\<dots> = runCommandCount (requests tr)" by simp
  finally show ?thesis by (simp add: runCommandCount_requests[of tr])
qed

subsection \<open>The example clusters, check by check\<close>

lemma exampleUnmarshal_simps:
  "exampleUnmarshal ''{status}'' = JsonValue exampleStatus"
  "exampleUnmarshal ''null'' = JsonNil"
  "exampleUnmarshal ''{stat'' = JsonError ''invalid character''"
  by (simp_all add: exampleUnmarshal_def)

lemma example_mon_check:
  assumes "\<And>t namespace label. listPods w t namespace label = (examplePods namespace label, None)"
  shows "checkPodsOnNodes w ns ''app=rook-ceph-mon'' tr =
           tr @ [PodsList ns ''app=rook-ceph-mon'',
                 Printf (''%s'' @ [CHR 0x09] @ ''%s'' @ [CHR 0x09] @ ''%s'' @ [CHR 0x09] @ ''%s'' @ [CHR 0x0A])
                 [AStr ''mon-a'', AStr ''Running'', AStr ns, AStr ''node1''],
                 Printf (''%s'' @ [CHR 0x09] @ ''%s'' @ [CHR 0x09] @ ''%s'' @ [CHR 0x09] @ ''%s'' @ [CHR 0x0A])
                 [AStr ''mon-b'', AStr ''Running'', AStr ns, AStr ''node2''],
                 Printf (''%s'' @ [CHR 0x09] @ ''%s'' @ [CHR 0x09] @ ''%s'' @ [CHR 0x09] @ ''%s'' @ [CHR 0x0A])
                 [AStr ''mon-c'', AStr ''Pending'', AStr ns, AStr []]]"
  by (simp add: checkPodsOnNodes_def Let_def Items_def assms examplePods_def examplePod_def
        podLine_def podFormat_def)

lemma example_osd_check:
  assumes "\<And>t namespace label. listPods w t namespace label = (examplePods namespace label, None)"
  shows "checkPodsOnNodes w ns ''app=rook-ceph-osd'' tr =
           tr @ [PodsList ns ''app=rook-ceph-osd'',
                 LogWarning (''At least three %s pods should running on different nodes''
                             @ [CHR 0x0A]) [AStr ''osd''],
                 Printf (''%s'' @ [CHR 0x09] @ ''%s'' @ [CHR 0x09] @ ''%s'' @ [CHR 0x09] @ ''%s'' @ [CHR 0x0A])
                 [AStr ''osd-0'', AStr ''Running'', AStr ns, AStr ''node1''],
                 Printf (''%s'' @ [CHR 0x09] @ ''%s'' @ [CHR 0x09] @ ''%s'' @ [CHR 0x09] @ ''%s'' @ [CHR 0x0A])
                 [AStr ''osd-1'', AStr ''Running'', AStr ns, AStr ''node1'']]"
  by (simp add: checkPodsOnNodes_def Let_def Items_def assms examplePods_def examplePod_def
        podLine_def podFormat_def daemonTypeOf_labels loggingWarning_def)

lemma example_census:
  assumes "\<And>t namespace label. listPods w t namespace label = (examplePods namespace label, None)"
  shows "CheckAllPodsStatus w ns ns tr =
           tr @ [PodsList ns [],
                 LogInfo (''Pods that are in '' @ [CHR 0x27] @ ''Running'' @ [CHR 0x27] @ '' status'') [],
                 Printf (''%s'' @ [CHR 0x09] @ ''%s'' @ [CHR 0x09] @ ''%s'' @ [CHR 0x09] @ ''%s'' @ [CHR 0x0A])
                 [AStr ''operator'', AStr ''Running'', AStr ns, AStr ''node1''],
                 Printf (''%s'' @ [CHR 0x09] @ ''%s'' @ [CHR 0x09] @ ''%s'' @ [CHR 0x09] @ ''%s'' @ [CHR 0x0A])
                 [AStr ''mon-a'', AStr ''Running'', AStr ns, AStr ''node1''],
                 Printf (''%s'' @ [CHR 0x09] @ ''%s'' @ [CHR 0x09] @ ''%s'' @ [CHR 0x09] @ ''%s'' @ [CHR 0x0A])
                 [AStr ''mon-b'', AStr ''Running'', AStr ns, AStr ''node2''],
                 Println,
                 LogWarning (''Pods that are '' @ [CHR 0x27] @ ''Not'' @ [CHR 0x27] @ '' in '' @ [CHR 0x27] @ ''Running'' @ [CHR 0x27] @ '' status'') [],
                 Printf (''%s'' @ [CHR 0x09] @ ''%s'' @ [CHR 0x09] @ ''%s'' @ [CHR 0x09] @ ''%s'' @ [CHR 0x0A])
                 [AStr ''mon-c'', AStr ''Pending'', AStr ns, AStr []]]"
  by (simp add: CheckAllPodsStatus_def getPodRunningStatus_unfold Let_def Items_def assms
        examplePods_def examplePod_def podLine_def podFormat_def loggingInfo_def
        loggingWarning_def PodRunning_def)

lemma example_mgr_check:
  assumes "\<And>t namespace label. listPods w t namespace label = (examplePods namespace label, None)"
  shows "checkMgrPodsStatusAndCounts w ns tr =
           tr @ [PodsList ns ''app=rook-ceph-mgr'',
                 Printf (''%s'' @ [CHR 0x09] @ ''%s'' @ [CHR 0x09] @ ''%s'' @ [CHR 0x09] @ ''%s'' @ [CHR 0x0A])
                 [AStr ''mgr-a'', AStr ''Running'', AStr ns, AStr ''node2'']]"
  by (simp add: checkMgrPodsStatusAndCounts_def Let_def Items_def assms examplePods_def
        examplePod_def podLine_def podFormat_def)

lemma example_pgLoop:
  "pgLoop (PgsByState (PgMap exampleStatus)) tr =
     tr @ [LogInfo ([CHR 0x09] @ ''PgState: %s, PgCount: %d'') [AStr ''active+clean'', AInt 10],
           LogError (Errorf ([CHR 0x09] @ ''PgState: %s, PgCount: %d'') [AStr ''active+undersized+degraded+down'', AInt 2]),
           LogWarning ([CHR 0x09] @ ''PgState: %s, PgCount: %d'') [AStr ''remapped'', AInt 2]]"
  by (simp add: exampleStatus_def checkPgEntry_def pgFormat_def loggingInfo_def
        loggingWarning_def loggingError_def)

lemma example_listings:
  "listPods exampleWorld t namespace label = (examplePods namespace label, None)"
  "listPods nullWorld t namespace label = (examplePods namespace label, None)"
  "listPods garbledWorld t namespace label = (examplePods namespace label, None)"
  "listPods lateGarbledWorld t namespace label = (examplePods namespace label, None)"
  "listPods lateNullWorld t namespace label = (examplePods namespace label, None)"
  by (simp_all add: exampleWorld_def nullWorld_def garbledWorld_def lateGarbledWorld_def
        lateNullWorld_def)

lemma example_fetches:
  "runCommandInOperatorPod exampleWorld t cmd args on cn = ''{status}''"
  "runCommandInOperatorPod failingWorld t cmd args on cn = ''{status}''"
  "runCommandInOperatorPod partialWorld t cmd args on cn = ''{status}''"
  "runCommandInOperatorPod nullWorld t cmd args on cn = ''null''"
  "runCommandInOperatorPod lateGarbledWorld t cmd args on cn
     = (if runCommandCount t = 0 then ''{status}'' else ''{stat'')"
  "runCommandInOperatorPod lateNullWorld t cmd args on cn
     = (if runCommandCount t = 0 then ''{status}'' else ''null'')"
  "unmarshal exampleWorld = exampleUnmarshal"
  "unmarshal failingWorld = exampleUnmarshal"
  "unmarshal partialWorld = exampleUnmarshal"
  "unmarshal nullWorld = exampleUnmarshal"
  "unmarshal lateGarbledWorld = exampleUnmarshal"
  "unmarshal lateNullWorld = exampleUnmarshal"
  by (simp_all add: exampleWorld_def nullWorld_def lateGarbledWorld_def lateNullWorld_def
        failingWorld_def partialWorld_def)

lemma exampleStatus_health: "Status (cephStatus.Health exampleStatus) = ''HEALTH_WARN''"
  by (simp add: exampleStatus_def)

section \<open>The claims\<close>

text \<open>Claim C1. When the status decodes, \<^verbatim>\<open>checkPgStatus\<close> returns and adds to the trace
  exactly one log event per placement-group state entry, in the order of the entries, and
  the severity of the event of an entry is the one the rule gives to its state name: Info
  for exactly \<^verbatim>\<open>active+clean\<close>, otherwise Error when the name has \<^verbatim>\<open>down\<close>, \<^verbatim>\<open>incomplete\<close> or
  \<^verbatim>\<open>snaptrim_error\<close> as a substring, otherwise Warning. The example shows the composite
  name \<^verbatim>\<open>active+undersized+degraded+down\<close> classified Error.\<close>

theorem checkPgStatus_classification:
  assumes "unMarshalCephStatus w op cl tr = (Return (h, pgs), tr1)"
  shows "\<exists>evs. checkPgStatus w op cl tr = (Return (), tr1 @ evs)
           \<and> map severity_of evs = map (\<lambda>e. Some (spec_pg_severity (StateName e))) pgs"
  using assms pgLoop_severity[of pgs tr1] by (auto simp: checkPgStatus_def)

theorem checkPgStatus_classification_witness:
  "\<exists>evs. checkPgStatus exampleWorld ''rook-ceph'' ''rook-ceph'' []
            = (Return (), [RunCommand ''ceph'' cephStatusArgs ''rook-ceph'' ''rook-ceph''] @ evs)
         \<and> map severity_of evs = [Some Info, Some Error, Some Warning]"
proof -
  have sev: "spec_pg_severity ''active+clean'' = Info"
      "spec_pg_severity ''active+undersized+degraded+down'' = Error"
      "spec_pg_severity ''remapped'' = Warning"
    by (simp_all add: spec_pg_severity_def Contains_iff_sublist[symmetric])
  from checkPgStatus_classification[OF exampleWorld_status, of "''rook-ceph''" "''rook-ceph''" "[]"]
  show ?thesis by (simp add: exampleStatus_def sev)
qed

text \<open>Claim C2. When the status decodes to the overall-health string \<open>h\<close>, \<^verbatim>\<open>checkMonQuorum\<close>
  adds exactly one event when \<open>h\<close> is \<^verbatim>\<open>HEALTH_OK\<close> (Info), \<^verbatim>\<open>HEALTH_WARN\<close> (Warning) or
  \<^verbatim>\<open>HEALTH_ERR\<close> (Error), and adds nothing for any other string.\<close>

theorem checkMonQuorum_classification:
  assumes "unMarshalCephStatus w op cl tr = (Return (h, pgs), tr1)"
  shows "checkMonQuorum w op cl tr =
           (Return (),
            tr1 @ (if h = ''HEALTH_OK'' then [LogInfo h []]
                   else if h = ''HEALTH_WARN'' then [LogWarning h []]
                   else if h = ''HEALTH_ERR'' then [LogError (Errorf h [])]
                   else []))"
  using assms by (simp add: checkMonQuorum_def loggingInfo_def loggingWarning_def loggingError_def)

theorem checkMonQuorum_classification_witness:
  "checkMonQuorum exampleWorld ''rook-ceph'' ''rook-ceph'' [] =
     (Return (), [RunCommand ''ceph'' cephStatusArgs ''rook-ceph'' ''rook-ceph'',
                  LogWarning ''HEALTH_WARN'' []])"
  using checkMonQuorum_classification[OF exampleWorld_status, of "''rook-ceph''" "''rook-ceph''" "[]"]
  by simp

text \<open>Claim C6. Whatever pod list the listing hands back, \<^verbatim>\<open>checkPodsOnNodes\<close> adds the
  request (and an Error when the listing also handed back an error), then exactly one
  Warning when fewer than three distinct node names occur in the list and no Warning
  otherwise, then one listing line per pod, whether or not it warned: the format
  \<^verbatim>\<open>"%s\t%s\t%s\t%s\n"\<close> on the pod's name, phase, namespace and node name.\<close>

theorem checkPodsOnNodes_output:
  fixes label :: string
  defines "daemonType \<equiv> (if sublist ''osd'' label then ''osd''
                          else if sublist ''mon'' label then ''mon'' else [])"
  assumes "listPods w tr ns label = (pods, err)"
  shows "checkPodsOnNodes w ns label tr =
           tr @ [PodsList ns label]
           @ (case err of
                None \<Rightarrow> []
              | Some e \<Rightarrow> [LogError (Errorf ''failed to list %s pods with label %s: %v''
                                       [AStr daemonType, AStr label, AErr e])])
           @ (if card (NodeName ` set pods) < 3 then
                [LogWarning (''At least three %s pods should running on different nodes''
                             @ [CHR 0x0A]) [AStr daemonType]]
              else [])
           @ map (\<lambda>p. Printf (''%s'' @ [CHR 0x09] @ ''%s'' @ [CHR 0x09] @ ''%s'' @ [CHR 0x09] @ ''%s'' @ [CHR 0x0A])
                        [AStr (Name p), AStr (Phase p), AStr (Namespace p), AStr (NodeName p)])
               pods"
  using assms(2) unfolding daemonType_def
  by (simp add: checkPodsOnNodes_def Let_def Items_def length_nodeListLoop loggingWarning_def
        loggingError_def daemonTypeOf_def Contains_iff_sublist podLine_def podFormat_def
        split: option.split)

theorem checkPodsOnNodes_output_witness:
  "checkPodsOnNodes exampleWorld ''rook-ceph'' ''app=rook-ceph-osd'' [] =
     [PodsList ''rook-ceph'' ''app=rook-ceph-osd'',
      LogWarning (''At least three %s pods should running on different nodes'' @ [CHR 0x0A])
        [AStr ''osd''],
      Printf (''%s'' @ [CHR 0x09] @ ''%s'' @ [CHR 0x09] @ ''%s'' @ [CHR 0x09] @ ''%s'' @ [CHR 0x0A])
        [AStr ''osd-0'', AStr ''Running'', AStr ''rook-ceph'', AStr ''node1''],
      Printf (''%s'' @ [CHR 0x09] @ ''%s'' @ [CHR 0x09] @ ''%s'' @ [CHR 0x09] @ ''%s'' @ [CHR 0x0A])
        [AStr ''osd-1'', AStr ''Running'', AStr ''rook-ceph'', AStr ''node1'']]
   \<and> checkPodsOnNodes exampleWorld ''rook-ceph'' ''app=rook-ceph-mon'' [] =
     [PodsList ''rook-ceph'' ''app=rook-ceph-mon'',
      Printf (''%s'' @ [CHR 0x09] @ ''%s'' @ [CHR 0x09] @ ''%s'' @ [CHR 0x09] @ ''%s'' @ [CHR 0x0A])
        [AStr ''mon-a'', AStr ''Running'', AStr ''rook-ceph'', AStr ''node1''],
      Printf (''%s'' @ [CHR 0x09] @ ''%s'' @ [CHR 0x09] @ ''%s'' @ [CHR 0x09] @ ''%s'' @ [CHR 0x0A])
        [AStr ''mon-b'', AStr ''Running'', AStr ''rook-ceph'', AStr ''node2''],
      Printf (''%s'' @ [CHR 0x09] @ ''%s'' @ [CHR 0x09] @ ''%s'' @ [CHR 0x09] @ ''%s'' @ [CHR 0x0A])
        [AStr ''mon-c'', AStr ''Pending'', AStr ''rook-ceph'', AStr []]]
   \<and> checkPodsOnNodes partialWorld ''rook-ceph'' ''app=rook-ceph-osd'' [] =
     [PodsList ''rook-ceph'' ''app=rook-ceph-osd'',
      LogError (Errorf ''failed to list %s pods with label %s: %v''
                  [AStr ''osd'', AStr ''app=rook-ceph-osd'', AErr ''context deadline exceeded'']),
      LogWarning (''At least three %s pods should running on different nodes'' @ [CHR 0x0A])
        [AStr ''osd''],
      Printf (''%s'' @ [CHR 0x09] @ ''%s'' @ [CHR 0x09] @ ''%s'' @ [CHR 0x09] @ ''%s'' @ [CHR 0x0A])
        [AStr ''osd-0'', AStr ''Running'', AStr ''rook-ceph'', AStr ''node1''],
      Printf (''%s'' @ [CHR 0x09] @ ''%s'' @ [CHR 0x09] @ ''%s'' @ [CHR 0x09] @ ''%s'' @ [CHR 0x0A])
        [AStr ''osd-1'', AStr ''Running'', AStr ''rook-ceph'', AStr ''node1'']]"
proof -
  have h: "listPods exampleWorld [] ''rook-ceph'' ''app=rook-ceph-osd''
             = (examplePods ''rook-ceph'' ''app=rook-ceph-osd'', None)"
    by (simp add: exampleWorld_def)
  have h': "listPods exampleWorld [] ''rook-ceph'' ''app=rook-ceph-mon''
             = (examplePods ''rook-ceph'' ''app=rook-ceph-mon'', None)"
    by (simp add: exampleWorld_def)
  have h'': "listPods partialWorld [] ''rook-ceph'' ''app=rook-ceph-osd''
             = (examplePods ''rook-ceph'' ''app=rook-ceph-osd'', Some ''context deadline exceeded'')"
    by (simp add: partialWorld_def)
  have l: "sublist ''osd'' ''app=rook-ceph-osd''" "\<not> sublist ''osd'' ''app=rook-ceph-mon''"
      "sublist ''mon'' ''app=rook-ceph-mon''"
    by (simp_all add: Contains_iff_sublist[symmetric])
  from checkPodsOnNodes_output[OF h] checkPodsOnNodes_output[OF h']
    checkPodsOnNodes_output[OF h'']
  show ?thesis
    by (simp add: examplePods_def examplePod_def l)
qed





text \<open>Claim C7. \<^verbatim>\<open>CheckAllPodsStatus\<close> lists the pods of the operator namespace and, only
  when the cluster namespace is another one, those of the cluster namespace. When the two
  namespaces are equal it makes exactly one listing, its listing lines are those of the
  running pods followed by those of the other pods of that one answer, and their number is
  the number of pods in the answer: no pod is printed twice.\<close>

theorem CheckAllPodsStatus_queries:
  "\<exists>evs. CheckAllPodsStatus w op cl tr = tr @ evs
     \<and> requests evs = (if op \<noteq> cl then [PodsList op [], PodsList cl []] else [PodsList op []])
     \<and> (op = cl \<longrightarrow>
          filter is_listing evs
            = map podLine (filter (\<lambda>p. Phase p = PodRunning) (Items (listPods w tr op [])))
              @ map podLine (filter (\<lambda>p. Phase p \<noteq> PodRunning) (Items (listPods w tr op [])))
          \<and> length (filter is_listing evs) = length (Items (listPods w tr op [])))"
proof (cases "op = cl")
  case True
  let ?pods = "Items (listPods w tr op [])"
  let ?evs = "drop (length tr) (CheckAllPodsStatus w op cl tr)"
  have len: "length (filter (\<lambda>p. Phase p = PodRunning) ?pods)
      + length (filter (\<lambda>p. Phase p \<noteq> PodRunning) ?pods) = length ?pods"
    by (rule sum_length_filter_compl)
  show ?thesis using True len
    by (simp add: CheckAllPodsStatus_def Let_def getPodRunningStatus_unfold loggingInfo_def
        loggingWarning_def split: option.split)
next
  case False
  then show ?thesis
    by (simp add: CheckAllPodsStatus_def Let_def getPodRunningStatus_unfold loggingInfo_def
        loggingWarning_def split: option.split)
qed


theorem CheckAllPodsStatus_queries_witness:
  "\<exists>evs. CheckAllPodsStatus exampleWorld ''rook-ceph'' ''rook-ceph'' [] = evs
     \<and> requests evs = [PodsList ''rook-ceph'' []]
     \<and> length (filter is_listing evs) = 4"
  using CheckAllPodsStatus_queries[of exampleWorld "''rook-ceph''" "''rook-ceph''" "[]"]
  by (simp add: exampleWorld_def examplePods_def Items_def)

text \<open>Claim C3, as the code has it. When the payload fetched by the quorum check fails to
  decode, \<^verbatim>\<open>unMarshalCephStatus\<close> logs the error through \<^verbatim>\<open>logging.Fatal\<close> and the run
  ends there: the trace stops at the fatal log, and the only requests of the run are the
  listing of the monitors and that one status fetch. The placement-group step is not
  reached and fetches nothing.\<close>

theorem Health_decode_failure_exits:
  fixes w :: world and op cl :: string and tr :: "event list"
  defines "tr3 \<equiv> loggingInfo ''Checking mon quorum and ceph health details'' []
                   (checkPodsOnNodes w cl ''app=rook-ceph-mon''
                      (loggingInfo
                         ''Checking if at least three mon pods are running on different nodes''
                         [] tr) @ [Println])"
  assumes "unmarshal w (runCommandInOperatorPod w tr3 ''ceph'' cephStatusArgs op cl)
             = JsonError msg"
  shows "Health w op cl tr =
           (Exit, tr3 @ [RunCommand ''ceph'' cephStatusArgs op cl,
                         LogFatal (UnmarshalError msg)])
         \<and> requests (snd (Health w op cl tr)) =
             requests tr @ [PodsList cl ''app=rook-ceph-mon'',
                            RunCommand ''ceph'' cephStatusArgs op cl]"
  using assms(2) unfolding tr3_def
  by (simp add: Health_unfold Let_def checkMonQuorum_unfold)

theorem Health_decode_failure_exits_witness:
  "fst (Health garbledWorld ''rook-ceph-operator'' ''rook-ceph'' []) = Exit
   \<and> requests (snd (Health garbledWorld ''rook-ceph-operator'' ''rook-ceph'' [])) =
       [PodsList ''rook-ceph'' ''app=rook-ceph-mon'',
        RunCommand ''ceph'' cephStatusArgs ''rook-ceph-operator'' ''rook-ceph'']"
proof -
  have "unmarshal garbledWorld
          (runCommandInOperatorPod garbledWorld
             (loggingInfo ''Checking mon quorum and ceph health details'' []
                (checkPodsOnNodes garbledWorld ''rook-ceph'' ''app=rook-ceph-mon''
                   (loggingInfo
                      ''Checking if at least three mon pods are running on different nodes''
                      [] []) @ [Println]))
             ''ceph'' cephStatusArgs ''rook-ceph-operator'' ''rook-ceph'')
        = JsonError ''invalid character''"
    by (simp add: garbledWorld_def run_defs)
  from Health_decode_failure_exits[OF this] show ?thesis by simp
qed

text \<open>Claim C3 as stated fails: in a cluster whose first status payload is truncated and
  whose later payloads would be well-formed, the run exits in the quorum check after one
  remote command, before the banner of the placement-group step.\<close>

theorem Health_decode_failure_counterexample:
  "unmarshal garbledWorld ''{stat'' = JsonError ''invalid character''
   \<and> Health garbledWorld ''rook-ceph'' ''rook-ceph'' [] =
       (Exit,
        [LogInfo ''Checking if at least three mon pods are running on different nodes'' [],
         PodsList ''rook-ceph'' ''app=rook-ceph-mon'',
         podLine (examplePod ''mon-a'' ''Running'' ''rook-ceph'' ''node1''),
         podLine (examplePod ''mon-b'' ''Running'' ''rook-ceph'' ''node2''),
         podLine (examplePod ''mon-c'' ''Pending'' ''rook-ceph'' []),
         Println,
         LogInfo ''Checking mon quorum and ceph health details'' [],
         RunCommand ''ceph'' cephStatusArgs ''rook-ceph'' ''rook-ceph'',
         LogFatal (UnmarshalError ''invalid character'')])
   \<and> runCommandCount (snd (Health garbledWorld ''rook-ceph'' ''rook-ceph'' [])) = 1
   \<and> LogInfo ''Checking placement group status'' []
       \<notin> set (snd (Health garbledWorld ''rook-ceph'' ''rook-ceph'' []))"
  by (simp add: garbledWorld_def run_defs)

text \<open>Claim C4, as the code has it. \<^verbatim>\<open>Health\<close> runs, each under its banner: the
  node-distribution check of the monitors, the quorum check, the node-distribution check of
  the storage daemons, the pod census, the placement-group step, the manager count. What
  the pod listings answer never changes this. The payload fetched by the quorum check
  decides whether the run goes on: a decode error ends it with a fatal log, the payload
  \<^verbatim>\<open>null\<close> ends it with a panic, a decoded status lets it go on, with its verdict logged
  before the storage daemons are listed. The payload fetched by the placement-group step
  decides the same way whether the manager count runs, after the classification of the
  decoded entries. So the requests of every run are an initial part of the sequence of
  the six checks, and all of it when the run returns.\<close>

theorem Health_check_order:
  fixes w :: world and op cl :: string and tr :: "event list"
  defines "fetch \<equiv> RunCommand ''ceph'' cephStatusArgs op cl"
  defines "tr3 \<equiv> checkPodsOnNodes w cl ''app=rook-ceph-mon''
                   (tr @ [LogInfo ''Checking if at least three mon pods are running on different nodes'' []])
                 @ [Println, LogInfo ''Checking mon quorum and ceph health details'' []]"
  defines "verdict \<equiv> (\<lambda>h. if h = ''HEALTH_OK'' then [LogInfo h []]
                           else if h = ''HEALTH_WARN'' then [LogWarning h []]
                           else if h = ''HEALTH_ERR'' then [LogError (Errorf h [])]
                           else [])"
  defines "tr8 \<equiv> (\<lambda>cs1.
                   CheckAllPodsStatus w op cl
                     (checkPodsOnNodes w cl ''app=rook-ceph-osd''
                        (tr3 @ [fetch] @ verdict (Status (cephStatus.Health cs1))
                         @ [Println,
                            LogInfo ''Checking if at least three osd pods are running on different nodes'' []])
                      @ [Println])
                   @ [Println, LogInfo ''Checking placement group status'' []])"
  shows "Health w op cl tr =
           (case unmarshal w (runCommandInOperatorPod w tr3 ''ceph'' cephStatusArgs op cl) of
              JsonError msg \<Rightarrow> (Exit, tr3 @ [fetch, LogFatal (UnmarshalError msg)])
            | JsonNil \<Rightarrow> (Panic, tr3 @ [fetch])
            | JsonValue cs1 \<Rightarrow>
                (case unmarshal w
                        (runCommandInOperatorPod w (tr8 cs1) ''ceph'' cephStatusArgs op cl) of
                   JsonError msg \<Rightarrow> (Exit, tr8 cs1 @ [fetch, LogFatal (UnmarshalError msg)])
                 | JsonNil \<Rightarrow> (Panic, tr8 cs1 @ [fetch])
                 | JsonValue cs2 \<Rightarrow>
                     (Return (),
                      checkMgrPodsStatusAndCounts w cl
                        (pgLoop (PgsByState (PgMap cs2)) (tr8 cs1 @ [fetch])
                         @ [Println, LogInfo ''Checking if at least one mgr pod is running'' []]))))
         \<and> prefix (requests (snd (Health w op cl tr))) (requests tr @ Health_requests op cl)
         \<and> (fst (Health w op cl tr) = Return () \<longrightarrow>
              requests (snd (Health w op cl tr)) = requests tr @ Health_requests op cl)"
proof (intro conjI impI)
  show "Health w op cl tr =
           (case unmarshal w (runCommandInOperatorPod w tr3 ''ceph'' cephStatusArgs op cl) of
              JsonError msg \<Rightarrow> (Exit, tr3 @ [fetch, LogFatal (UnmarshalError msg)])
            | JsonNil \<Rightarrow> (Panic, tr3 @ [fetch])
            | JsonValue cs1 \<Rightarrow>
                (case unmarshal w
                        (runCommandInOperatorPod w (tr8 cs1) ''ceph'' cephStatusArgs op cl) of
                   JsonError msg \<Rightarrow> (Exit, tr8 cs1 @ [fetch, LogFatal (UnmarshalError msg)])
                 | JsonNil \<Rightarrow> (Panic, tr8 cs1 @ [fetch])
                 | JsonValue cs2 \<Rightarrow>
                     (Return (),
                      checkMgrPodsStatusAndCounts w cl
                        (pgLoop (PgsByState (PgMap cs2)) (tr8 cs1 @ [fetch])
                         @ [Println, LogInfo ''Checking if at least one mgr pod is running'' []]))))"
    unfolding tr8_def verdict_def tr3_def fetch_def by (rule Health_run)
next
  show "prefix (requests (snd (Health w op cl tr))) (requests tr @ Health_requests op cl)"
    by (rule Health_requests_prefix)
next
  assume "fst (Health w op cl tr) = Return ()"
  then show "requests (snd (Health w op cl tr)) = requests tr @ Health_requests op cl"
    by (rule Health_requests_complete)
qed

theorem Health_check_order_witness:
  "Health exampleWorld ''rook-ceph'' ''rook-ceph'' [] =
     (Return (),
      [LogInfo ''Checking if at least three mon pods are running on different nodes'' [],
       PodsList ''rook-ceph'' ''app=rook-ceph-mon'',
       Printf (''%s'' @ [CHR 0x09] @ ''%s'' @ [CHR 0x09] @ ''%s'' @ [CHR 0x09] @ ''%s'' @ [CHR 0x0A])
         [AStr ''mon-a'', AStr ''Running'', AStr ''rook-ceph'', AStr ''node1''],
       Printf (''%s'' @ [CHR 0x09] @ ''%s'' @ [CHR 0x09] @ ''%s'' @ [CHR 0x09] @ ''%s'' @ [CHR 0x0A])
         [AStr ''mon-b'', AStr ''Running'', AStr ''rook-ceph'', AStr ''node2''],
       Printf (''%s'' @ [CHR 0x09] @ ''%s'' @ [CHR 0x09] @ ''%s'' @ [CHR 0x09] @ ''%s'' @ [CHR 0x0A])
         [AStr ''mon-c'', AStr ''Pending'', AStr ''rook-ceph'', AStr []],
       Println,
       LogInfo ''Checking mon quorum and ceph health details'' [],
       RunCommand ''ceph'' cephStatusArgs ''rook-ceph'' ''rook-ceph'',
       LogWarning ''HEALTH_WARN'' [],
       Println,
       LogInfo ''Checking if at least three osd pods are running on different nodes'' [],
       PodsList ''rook-ceph'' ''app=rook-ceph-osd'',
       LogWarning (''At least three %s pods should running on different nodes'' @ [CHR 0x0A])
         [AStr ''osd''],
       Printf (''%s'' @ [CHR 0x09] @ ''%s'' @ [CHR 0x09] @ ''%s'' @ [CHR 0x09] @ ''%s'' @ [CHR 0x0A])
         [AStr ''osd-0'', AStr ''Running'', AStr ''rook-ceph'', AStr ''node1''],
       Printf (''%s'' @ [CHR 0x09] @ ''%s'' @ [CHR 0x09] @ ''%s'' @ [CHR 0x09] @ ''%s'' @ [CHR 0x0A])
         [AStr ''osd-1'', AStr ''Running'', AStr ''rook-ceph'', AStr ''node1''],
       Println,
       PodsList ''rook-ceph'' [],
       LogInfo (''Pods that are in '' @ [CHR 0x27] @ ''Running'' @ [CHR 0x27] @ '' status'') [],
       Printf (''%s'' @ [CHR 0x09] @ ''%s'' @ [CHR 0x09] @ ''%s'' @ [CHR 0x09] @ ''%s'' @ [CHR 0x0A])
         [AStr ''operator'', AStr ''Running'', AStr ''rook-ceph'', AStr ''node1''],
       Printf (''%s'' @ [CHR 0x09] @ ''%s'' @ [CHR 0x09] @ ''%s'' @ [CHR 0x09] @ ''%s'' @ [CHR 0x0A])
         [AStr ''mon-a'', AStr ''Running'', AStr ''rook-ceph'', AStr ''node1''],
       Printf (''%s'' @ [CHR 0x09] @ ''%s'' @ [CHR 0x09] @ ''%s'' @ [CHR 0x09] @ ''%s'' @ [CHR 0x0A])
         [AStr ''mon-b'', AStr ''Running'', AStr ''rook-ceph'', AStr ''node2''],
       Println,
       LogWarning (''Pods that are '' @ [CHR 0x27] @ ''Not'' @ [CHR 0x27] @ '' in '' @ [CHR 0x27] @ ''Running'' @ [CHR 0x27] @ '' status'') [],
       Printf (''%s'' @ [CHR 0x09] @ ''%s'' @ [CHR 0x09] @ ''%s'' @ [CHR 0x09] @ ''%s'' @ [CHR 0x0A])
         [AStr ''mon-c'', AStr ''Pending'', AStr ''rook-ceph'', AStr []],
       Println,
       LogInfo ''Checking placement group status'' [],
       RunCommand ''ceph'' cephStatusArgs ''rook-ceph'' ''rook-ceph'',
       LogInfo ([CHR 0x09] @ ''PgState: %s, PgCount: %d'') [AStr ''active+clean'', AInt 10],
       LogError (Errorf ([CHR 0x09] @ ''PgState: %s, PgCount: %d'') [AStr ''active+undersized+degraded+down'', AInt 2]),
       LogWarning ([CHR 0x09] @ ''PgState: %s, PgCount: %d'') [AStr ''remapped'', AInt 2],
       Println,
       LogInfo ''Checking if at least one mgr pod is running'' [],
       PodsList ''rook-ceph'' ''app=rook-ceph-mgr'',
       Printf (''%s'' @ [CHR 0x09] @ ''%s'' @ [CHR 0x09] @ ''%s'' @ [CHR 0x09] @ ''%s'' @ [CHR 0x0A])
         [AStr ''mgr-a'', AStr ''Running'', AStr ''rook-ceph'', AStr ''node2'']])
   \<and> Health nullWorld ''rook-ceph'' ''rook-ceph'' [] =
       (Panic,
        [LogInfo ''Checking if at least three mon pods are running on different nodes'' [],
         PodsList ''rook-ceph'' ''app=rook-ceph-mon'',
         Printf (''%s'' @ [CHR 0x09] @ ''%s'' @ [CHR 0x09] @ ''%s'' @ [CHR 0x09] @ ''%s'' @ [CHR 0x0A])
         [AStr ''mon-a'', AStr ''Running'', AStr ''rook-ceph'', AStr ''node1''],
         Printf (''%s'' @ [CHR 0x09] @ ''%s'' @ [CHR 0x09] @ ''%s'' @ [CHR 0x09] @ ''%s'' @ [CHR 0x0A])
         [AStr ''mon-b'', AStr ''Running'', AStr ''rook-ceph'', AStr ''node2''],
         Printf (''%s'' @ [CHR 0x09] @ ''%s'' @ [CHR 0x09] @ ''%s'' @ [CHR 0x09] @ ''%s'' @ [CHR 0x0A])
         [AStr ''mon-c'', AStr ''Pending'', AStr ''rook-ceph'', AStr []],
         Println,
         LogInfo ''Checking mon quorum and ceph health details'' [],
         RunCommand ''ceph'' cephStatusArgs ''rook-ceph'' ''rook-ceph''])
   \<and> fst (Health lateGarbledWorld ''rook-ceph-operator'' ''rook-ceph'' []) = Exit
   \<and> requests (snd (Health lateGarbledWorld ''rook-ceph-operator'' ''rook-ceph'' [])) =
       [PodsList ''rook-ceph'' ''app=rook-ceph-mon'',
        RunCommand ''ceph'' cephStatusArgs ''rook-ceph-operator'' ''rook-ceph'',
        PodsList ''rook-ceph'' ''app=rook-ceph-osd'',
        PodsList ''rook-ceph-operator'' [],
        PodsList ''rook-ceph'' [],
        RunCommand ''ceph'' cephStatusArgs ''rook-ceph-operator'' ''rook-ceph'']
   \<and> last (snd (Health lateGarbledWorld ''rook-ceph-operator'' ''rook-ceph'' []))
       = LogFatal (UnmarshalError ''invalid character'')
   \<and> fst (Health lateNullWorld ''rook-ceph-operator'' ''rook-ceph'' []) = Panic
   \<and> last (snd (Health lateNullWorld ''rook-ceph-operator'' ''rook-ceph'' []))
       = RunCommand ''ceph'' cephStatusArgs ''rook-ceph-operator'' ''rook-ceph''"
proof -
  have a: "Health exampleWorld ''rook-ceph'' ''rook-ceph'' [] =
     (Return (),
      [LogInfo ''Checking if at least three mon pods are running on different nodes'' [],
       PodsList ''rook-ceph'' ''app=rook-ceph-mon'',
       Printf (''%s'' @ [CHR 0x09] @ ''%s'' @ [CHR 0x09] @ ''%s'' @ [CHR 0x09] @ ''%s'' @ [CHR 0x0A])
         [AStr ''mon-a'', AStr ''Running'', AStr ''rook-ceph'', AStr ''node1''],
       Printf (''%s'' @ [CHR 0x09] @ ''%s'' @ [CHR 0x09] @ ''%s'' @ [CHR 0x09] @ ''%s'' @ [CHR 0x0A])
         [AStr ''mon-b'', AStr ''Running'', AStr ''rook-ceph'', AStr ''node2''],
       Printf (''%s'' @ [CHR 0x09] @ ''%s'' @ [CHR 0x09] @ ''%s'' @ [CHR 0x09] @ ''%s'' @ [CHR 0x0A])
         [AStr ''mon-c'', AStr ''Pending'', AStr ''rook-ceph'', AStr []],
       Println,
       LogInfo ''Checking mon quorum and ceph health details'' [],
       RunCommand ''ceph'' cephStatusArgs ''rook-ceph'' ''rook-ceph'',
       LogWarning ''HEALTH_WARN'' [],
       Println,
       LogInfo ''Checking if at least three osd pods are running on different nodes'' [],
       PodsList ''rook-ceph'' ''app=rook-ceph-osd'',
       LogWarning (''At least three %s pods should running on different nodes'' @ [CHR 0x0A])
         [AStr ''osd''],
       Printf (''%s'' @ [CHR 0x09] @ ''%s'' @ [CHR 0x09] @ ''%s'' @ [CHR 0x09] @ ''%s'' @ [CHR 0x0A])
         [AStr ''osd-0'', AStr ''Running'', AStr ''rook-ceph'', AStr ''node1''],
       Printf (''%s'' @ [CHR 0x09] @ ''%s'' @ [CHR 0x09] @ ''%s'' @ [CHR 0x09] @ ''%s'' @ [CHR 0x0A])
         [AStr ''osd-1'', AStr ''Running'', AStr ''rook-ceph'', AStr ''node1''],
       Println,
       PodsList ''rook-ceph'' [],
       LogInfo (''Pods that are in '' @ [CHR 0x27] @ ''Running'' @ [CHR 0x27] @ '' status'') [],
       Printf (''%s'' @ [CHR 0x09] @ ''%s'' @ [CHR 0x09] @ ''%s'' @ [CHR 0x09] @ ''%s'' @ [CHR 0x0A])
         [AStr ''operator'', AStr ''Running'', AStr ''rook-ceph'', AStr ''node1''],
       Printf (''%s'' @ [CHR 0x09] @ ''%s'' @ [CHR 0x09] @ ''%s'' @ [CHR 0x09] @ ''%s'' @ [CHR 0x0A])
         [AStr ''mon-a'', AStr ''Running'', AStr ''rook-ceph'', AStr ''node1''],
       Printf (''%s'' @ [CHR 0x09] @ ''%s'' @ [CHR 0x09] @ ''%s'' @ [CHR 0x09] @ ''%s'' @ [CHR 0x0A])
         [AStr ''mon-b'', AStr ''Running'', AStr ''rook-ceph'', AStr ''node2''],
       Println,
       LogWarning (''Pods that are '' @ [CHR 0x27] @ ''Not'' @ [CHR 0x27] @ '' in '' @ [CHR 0x27] @ ''Running'' @ [CHR 0x27] @ '' status'') [],
       Printf (''%s'' @ [CHR 0x09] @ ''%s'' @ [CHR 0x09] @ ''%s'' @ [CHR 0x09] @ ''%s'' @ [CHR 0x0A])
         [AStr ''mon-c'', AStr ''Pending'', AStr ''rook-ceph'', AStr []],
       Println,
       LogInfo ''Checking placement group status'' [],
       RunCommand ''ceph'' cephStatusArgs ''rook-ceph'' ''rook-ceph'',
       LogInfo ([CHR 0x09] @ ''PgState: %s, PgCount: %d'') [AStr ''active+clean'', AInt 10],
       LogError (Errorf ([CHR 0x09] @ ''PgState: %s, PgCount: %d'') [AStr ''active+undersized+degraded+down'', AInt 2]),
       LogWarning ([CHR 0x09] @ ''PgState: %s, PgCount: %d'') [AStr ''remapped'', AInt 2],
       Println,
       LogInfo ''Checking if at least one mgr pod is running'' [],
       PodsList ''rook-ceph'' ''app=rook-ceph-mgr'',
       Printf (''%s'' @ [CHR 0x09] @ ''%s'' @ [CHR 0x09] @ ''%s'' @ [CHR 0x09] @ ''%s'' @ [CHR 0x0A])
         [AStr ''mgr-a'', AStr ''Running'', AStr ''rook-ceph'', AStr ''node2'']])"
    using Health_check_order[of exampleWorld "''rook-ceph''" "''rook-ceph''" "[]"]
    by (simp add: example_fetches exampleUnmarshal_simps example_mon_check[OF example_listings(1)] example_osd_check[OF example_listings(1)] example_census[OF example_listings(1)] example_mgr_check[OF example_listings(1)] example_pgLoop exampleStatus_health Health_requests_def)
  have b: "Health nullWorld ''rook-ceph'' ''rook-ceph'' [] =
       (Panic,
        [LogInfo ''Checking if at least three mon pods are running on different nodes'' [],
         PodsList ''rook-ceph'' ''app=rook-ceph-mon'',
         Printf (''%s'' @ [CHR 0x09] @ ''%s'' @ [CHR 0x09] @ ''%s'' @ [CHR 0x09] @ ''%s'' @ [CHR 0x0A])
         [AStr ''mon-a'', AStr ''Running'', AStr ''rook-ceph'', AStr ''node1''],
         Printf (''%s'' @ [CHR 0x09] @ ''%s'' @ [CHR 0x09] @ ''%s'' @ [CHR 0x09] @ ''%s'' @ [CHR 0x0A])
         [AStr ''mon-b'', AStr ''Running'', AStr ''rook-ceph'', AStr ''node2''],
         Printf (''%s'' @ [CHR 0x09] @ ''%s'' @ [CHR 0x09] @ ''%s'' @ [CHR 0x09] @ ''%s'' @ [CHR 0x0A])
         [AStr ''mon-c'', AStr ''Pending'', AStr ''rook-ceph'', AStr []],
         Println,
         LogInfo ''Checking mon quorum and ceph health details'' [],
         RunCommand ''ceph'' cephStatusArgs ''rook-ceph'' ''rook-ceph''])"
    using Health_check_order[of nullWorld "''rook-ceph''" "''rook-ceph''" "[]"]
    by (simp add: example_fetches exampleUnmarshal_simps example_mon_check[OF example_listings(2)] example_osd_check[OF example_listings(2)] example_census[OF example_listings(2)] example_mgr_check[OF example_listings(2)] example_pgLoop exampleStatus_health Health_requests_def)
  have c: "fst (Health lateGarbledWorld ''rook-ceph-operator'' ''rook-ceph'' []) = Exit"
    "requests (snd (Health lateGarbledWorld ''rook-ceph-operator'' ''rook-ceph'' [])) =
       [PodsList ''rook-ceph'' ''app=rook-ceph-mon'',
        RunCommand ''ceph'' cephStatusArgs ''rook-ceph-operator'' ''rook-ceph'',
        PodsList ''rook-ceph'' ''app=rook-ceph-osd'',
        PodsList ''rook-ceph-operator'' [],
        PodsList ''rook-ceph'' [],
        RunCommand ''ceph'' cephStatusArgs ''rook-ceph-operator'' ''rook-ceph'']"
    "last (snd (Health lateGarbledWorld ''rook-ceph-operator'' ''rook-ceph'' []))
       = LogFatal (UnmarshalError ''invalid character'')"
    using Health_check_order[of lateGarbledWorld "''rook-ceph-operator''" "''rook-ceph''" "[]"]
    by (simp_all add: example_fetches exampleUnmarshal_simps Health_requests_def)
  have d: "fst (Health lateNullWorld ''rook-ceph-operator'' ''rook-ceph'' []) = Panic"
    "last (snd (Health lateNullWorld ''rook-ceph-operator'' ''rook-ceph'' []))
       = RunCommand ''ceph'' cephStatusArgs ''rook-ceph-operator'' ''rook-ceph''"
    using Health_check_order[of lateNullWorld "''rook-ceph-operator''" "''rook-ceph''" "[]"]
    by (simp_all add: example_fetches exampleUnmarshal_simps Health_requests_def)
  from a b c d show ?thesis by (intro conjI)
qed

text \<open>Claim C4 as stated fails: the second request of a complete run is the status fetch
  of the quorum check and the third is the listing of the storage daemons, not the other
  way round.\<close>

theorem Health_check_order_counterexample:
  "fst (Health exampleWorld ''rook-ceph'' ''rook-ceph'' []) = Return ()
   \<and> requests (snd (Health exampleWorld ''rook-ceph'' ''rook-ceph'' [])) \<noteq>
       [PodsList ''rook-ceph'' ''app=rook-ceph-mon'',
        PodsList ''rook-ceph'' ''app=rook-ceph-osd'',
        RunCommand ''ceph'' cephStatusArgs ''rook-ceph'' ''rook-ceph'',
        PodsList ''rook-ceph'' [],
        RunCommand ''ceph'' cephStatusArgs ''rook-ceph'' ''rook-ceph'',
        PodsList ''rook-ceph'' ''app=rook-ceph-mgr'']
   \<and> requests (snd (Health exampleWorld ''rook-ceph'' ''rook-ceph'' [])) ! 1 =
       RunCommand ''ceph'' cephStatusArgs ''rook-ceph'' ''rook-ceph''
   \<and> requests (snd (Health exampleWorld ''rook-ceph'' ''rook-ceph'' [])) ! 2 =
       PodsList ''rook-ceph'' ''app=rook-ceph-osd''"
  using Health_requests_complete[OF exampleWorld_returns, of "''rook-ceph''" "''rook-ceph''" "[]"]
  by (simp add: exampleWorld_returns Health_requests_def)




end
